theory Spec2Isabelle
  imports Complex_Main
begin

section \<open>JavaScript values used by the server\<close>

text \<open>
  The server is TypeScript on Node. Strings are modelled as \<open>string\<close>; a JavaScript
  number is a \<open>jsnum\<close>: a finite value (kept as the rational it denotes; the rounding of
  IEEE arithmetic on finite values and the sign of zero are not modelled), the two
  infinities, or NaN. A \<open>Date\<close> object is either invalid or a time value in
  milliseconds since the epoch.
\<close>

datatype jsnum = Fin rat | PosInf | NegInf | NaN

datatype jsdate = InvalidDate | ValidDate int

text \<open>
  Built-ins and library calls that the repository does not define are taken from the
  host: \<open>Number::toString\<close> of a finite number (used by \<open>toFixed\<close> from \<open>10^21\<close>
  on), the local calendar year and month of a time value, \<open>Date.parse\<close>,
  \<open>bcrypt.compare\<close> of a password and a hash, and \<open>jwt.sign\<close> of a user id and a
  user name at a time.
\<close>

record host =
  Number_toString :: "rat \<Rightarrow> string"
  Date_getFullYear :: "int \<Rightarrow> int"
  Date_getMonth :: "int \<Rightarrow> int"
  Date_parse :: "string \<Rightarrow> jsdate"
  bcrypt_compare :: "string \<Rightarrow> string \<Rightarrow> bool"
  jwt_sign :: "int \<Rightarrow> string \<Rightarrow> int \<Rightarrow> string"

subsection \<open>Strings\<close>

definition toLowerCase_char :: "char \<Rightarrow> char" where
  "toLowerCase_char c =
     (let n = (of_char c :: nat) in if 65 \<le> n \<and> n \<le> 90 then char_of (n + 32) else c)"

definition toLowerCase :: "string \<Rightarrow> string" where
  "toLowerCase s = map toLowerCase_char s"

fun startsWith :: "string \<Rightarrow> string \<Rightarrow> bool" where
  "startsWith s [] = True"
| "startsWith [] (k # ks) = False"
| "startsWith (c # s) (k # ks) = (c = k \<and> startsWith s ks)"

fun includes_str :: "string \<Rightarrow> string \<Rightarrow> bool" where
  "includes_str [] k = (k = [])"
| "includes_str (c # s) k = (startsWith (c # s) k \<or> includes_str s k)"

subsection \<open>Numbers\<close>

fun js_add :: "jsnum \<Rightarrow> jsnum \<Rightarrow> jsnum" where
  "js_add NaN _ = NaN"
| "js_add _ NaN = NaN"
| "js_add (Fin a) (Fin b) = Fin (a + b)"
| "js_add (Fin a) PosInf = PosInf"
| "js_add (Fin a) NegInf = NegInf"
| "js_add PosInf (Fin b) = PosInf"
| "js_add NegInf (Fin b) = NegInf"
| "js_add PosInf PosInf = PosInf"
| "js_add NegInf NegInf = NegInf"
| "js_add PosInf NegInf = NaN"
| "js_add NegInf PosInf = NaN"

fun js_mul :: "jsnum \<Rightarrow> jsnum \<Rightarrow> jsnum" where
  "js_mul NaN _ = NaN"
| "js_mul _ NaN = NaN"
| "js_mul (Fin a) (Fin b) = Fin (a * b)"
| "js_mul (Fin a) PosInf = (if a = 0 then NaN else if 0 < a then PosInf else NegInf)"
| "js_mul (Fin a) NegInf = (if a = 0 then NaN else if 0 < a then NegInf else PosInf)"
| "js_mul PosInf (Fin b) = (if b = 0 then NaN else if 0 < b then PosInf else NegInf)"
| "js_mul NegInf (Fin b) = (if b = 0 then NaN else if 0 < b then NegInf else PosInf)"
| "js_mul PosInf PosInf = PosInf"
| "js_mul NegInf NegInf = PosInf"
| "js_mul PosInf NegInf = NegInf"
| "js_mul NegInf PosInf = NegInf"

text \<open>
  Division never raises in JavaScript: a zero divisor gives NaN for \<open>0 / 0\<close> and an
  infinity otherwise.
\<close>

fun js_div :: "jsnum \<Rightarrow> jsnum \<Rightarrow> jsnum" where
  "js_div NaN _ = NaN"
| "js_div _ NaN = NaN"
| "js_div (Fin a) (Fin b) =
     (if b = 0 then (if a = 0 then NaN else if 0 < a then PosInf else NegInf)
      else Fin (a / b))"
| "js_div (Fin a) PosInf = Fin 0"
| "js_div (Fin a) NegInf = Fin 0"
| "js_div PosInf (Fin b) = (if b < 0 then NegInf else PosInf)"
| "js_div NegInf (Fin b) = (if b < 0 then PosInf else NegInf)"
| "js_div PosInf PosInf = NaN"
| "js_div NegInf NegInf = NaN"
| "js_div PosInf NegInf = NaN"
| "js_div NegInf PosInf = NaN"

fun js_lt :: "jsnum \<Rightarrow> jsnum \<Rightarrow> bool" where
  "js_lt NaN _ = False"
| "js_lt _ NaN = False"
| "js_lt (Fin a) (Fin b) = (a < b)"
| "js_lt (Fin a) PosInf = True"
| "js_lt (Fin a) NegInf = False"
| "js_lt PosInf _ = False"
| "js_lt NegInf (Fin b) = True"
| "js_lt NegInf PosInf = True"
| "js_lt NegInf NegInf = False"

definition js_gt :: "jsnum \<Rightarrow> jsnum \<Rightarrow> bool" where
  "js_gt a b = js_lt b a"

definition js_ge :: "jsnum \<Rightarrow> jsnum \<Rightarrow> bool" where
  "js_ge a b = (a \<noteq> NaN \<and> b \<noteq> NaN \<and> \<not> js_lt a b)"

definition Math_max :: "jsnum \<Rightarrow> jsnum \<Rightarrow> jsnum" where
  "Math_max a b = (if a = NaN \<or> b = NaN then NaN else if js_lt a b then b else a)"

definition Math_min :: "jsnum \<Rightarrow> jsnum \<Rightarrow> jsnum" where
  "Math_min a b = (if a = NaN \<or> b = NaN then NaN else if js_lt b a then b else a)"

fun digits_of_nat :: "nat \<Rightarrow> string" where
  "digits_of_nat n =
     (if n < 10 then [char_of (48 + n)]
      else digits_of_nat (n div 10) @ [char_of (48 + n mod 10)])"

text \<open>
  \<open>Number.prototype.toFixed\<close>: non-finite values print by name; otherwise the sign is
  split off, and below \<open>10^21\<close> the integer \<open>n\<close> nearest to \<open>x * 10^f\<close> (the larger one
  on a tie) is printed with the point before its last \<open>f\<close> digits.
\<close>

definition toFixed :: "host \<Rightarrow> jsnum \<Rightarrow> nat \<Rightarrow> string" where
  "toFixed h x f =
     (case x of
        NaN \<Rightarrow> ''NaN''
      | PosInf \<Rightarrow> ''Infinity''
      | NegInf \<Rightarrow> ''-Infinity''
      | Fin q \<Rightarrow>
          (let s = (if q < 0 then ''-'' else '''');
               a = \<bar>q\<bar>;
               m = (if 10 ^ 21 \<le> a then Number_toString h a
                    else
                      (let n = nat \<lfloor>a * 10 ^ f + 1 / 2\<rfloor>;
                           d = digits_of_nat n
                       in if f = 0 then d
                          else
                            (let z = (if length d \<le> f
                                      then replicate (f + 1 - length d) (CHR ''0'') @ d
                                      else d)
                             in take (length z - f) z @ ''.'' @ drop (length z - f) z)))
           in s @ m))"

text \<open>
  Decimal text: what \<open>Number.prototype.toString\<close> writes, and what \<open>parseFloat\<close> and
  a \<open>numeric\<close> column read. The model keeps the number that the text denotes, so the
  precision of the conversion between binary floating point and decimal text is outside
  the model.
\<close>

datatype decimal_text = DecimalText jsnum

definition toString_num :: "jsnum \<Rightarrow> decimal_text" where
  "toString_num x = DecimalText x"

fun parseFloat :: "decimal_text \<Rightarrow> jsnum" where
  "parseFloat (DecimalText x) = x"

section \<open>Shared schema: the objects of the API\<close>

text \<open>
  The types \<open>Income\<close>, \<open>Expense\<close>, \<open>Asset\<close>, \<open>Liability\<close> and \<open>Goal\<close> inferred from
  the zod schemas. An optional field is an \<open>option\<close> (\<open>None\<close> is \<open>undefined\<close>). The
  enumerations of \<open>type\<close> and \<open>frequency\<close> exist at compile time only, so the fields
  hold strings.
\<close>

record Income =
  income_id :: string
  income_userId :: int
  income_source :: string
  income_category :: string
  income_amount :: jsnum
  income_type :: string
  income_frequency :: string
  income_notes :: "string option"
  income_createdAt :: jsdate

record Expense =
  expense_id :: string
  expense_userId :: int
  expense_category :: string
  expense_amount :: jsnum
  expense_description :: string
  expense_date :: jsdate
  expense_notes :: "string option"
  expense_createdAt :: jsdate

record Asset =
  asset_id :: string
  asset_userId :: int
  asset_name :: string
  asset_category :: string
  asset_value :: jsnum
  asset_incomeGenerated :: jsnum
  asset_notes :: "string option"
  asset_createdAt :: jsdate

record Liability =
  liability_id :: string
  liability_userId :: int
  liability_description :: string
  liability_type :: string
  liability_amount :: jsnum
  liability_interestRate :: jsnum
  liability_notes :: "string option"
  liability_createdAt :: jsdate

record Goal =
  goal_id :: string
  goal_userId :: int
  goal_description :: string
  goal_targetAmount :: jsnum
  goal_currentAmount :: jsnum
  goal_targetDate :: jsdate
  goal_createdAt :: jsdate

section \<open>The advice generator (ai-assistant.ts)\<close>

record Summary =
  summary_totalIncome :: jsnum
  summary_totalExpenses :: jsnum
  summary_cashFlow :: jsnum
  summary_perDay :: jsnum
  summary_passiveIncome :: jsnum
  summary_netWorth :: jsnum
  summary_netWorthChange :: jsnum
  summary_largestExpenseCategory :: string
  summary_largestExpenseAmount :: jsnum

record UserData =
  userData_incomes :: "Income list"
  userData_expenses :: "Expense list"
  userData_assets :: "Asset list"
  userData_liabilities :: "Liability list"
  userData_goals :: "Goal list"
  userData_summary :: Summary

record AIAssistantRequest =
  request_query :: string
  request_userData :: UserData

text \<open>The local \<open>largestExpensePercentage\<close> of the expense template; there is no test of the divisor.\<close>

definition largestExpensePercentage :: "jsnum \<Rightarrow> jsnum \<Rightarrow> jsnum" where
  "largestExpensePercentage largestExpenseAmount totalExpenses =
     js_mul (js_div largestExpenseAmount totalExpenses) (Fin 100)"

definition generateExpenseReductionAdvice ::
  "host \<Rightarrow> Expense list \<Rightarrow> jsnum \<Rightarrow> string \<Rightarrow> jsnum \<Rightarrow> string" where
  "generateExpenseReductionAdvice h expenses totalExpenses largestExpenseCategory
      largestExpenseAmount =
     (let percentage = largestExpensePercentage largestExpenseAmount totalExpenses;
          advice = ''Based on your expense data, here are some recommendations to reduce your spending:\<newline>\<newline>'';
          advice = advice @ ''1. Your largest expense category is '' @ largestExpenseCategory
                     @ '' ('' @ toFixed h percentage 1 @ ''% of total expenses). '';
          advice = advice @ ''Consider if there are ways to reduce this expense, such as:\<newline>'';
          advice =
            (if largestExpenseCategory = ''Housing'' then
               advice @ ''   - Downsizing to a smaller home or apartment\<newline>''
                      @ ''   - Refinancing your mortgage for a lower rate\<newline>''
                      @ ''   - Taking on a roommate to share costs\<newline>''
             else if largestExpenseCategory = ''Transportation'' then
               advice @ ''   - Using public transportation more often\<newline>''
                      @ ''   - Carpooling or ride-sharing\<newline>''
                      @ ''   - Maintaining your vehicle properly to avoid costly repairs\<newline>''
             else if largestExpenseCategory = ''Food'' then
               advice @ ''   - Meal planning to reduce grocery waste\<newline>''
                      @ ''   - Cooking at home instead of eating out\<newline>''
                      @ ''   - Buying in bulk for non-perishable items\<newline>''
             else
               advice @ ''   - Reviewing subscriptions and canceling unnecessary ones\<newline>''
                      @ ''   - Looking for cheaper alternatives\<newline>''
                      @ ''   - Setting a strict budget for this category\<newline>'');
          advice = advice @ ''\<newline>2. General expense reduction strategies:\<newline>'';
          advice = advice @ ''   - Create a detailed budget and track all expenses\<newline>'';
          advice = advice @ ''   - Use the 50/30/20 rule: 50% for needs, 30% for wants, 20% for savings\<newline>'';
          advice = advice @ ''   - Look for recurring subscriptions you can cancel\<newline>'';
          advice = advice @ ''   - Consider negotiating bills like insurance, internet, and phone plans\<newline>'';
          advice = advice @ ''   - Use cash-back or rewards credit cards for purchases you already make\<newline>''
      in advice)"

definition generateAssetIncreaseAdvice :: "Asset list \<Rightarrow> jsnum \<Rightarrow> jsnum \<Rightarrow> string" where
  "generateAssetIncreaseAdvice assets netWorth passiveIncome =
     (let advice = ''Here are strategies to increase your assets and build wealth:\<newline>\<newline>'';
          realEstateAssets = filter (\<lambda>a. asset_category a = ''Real Estate'') assets;
          investmentAssets = filter (\<lambda>a. asset_category a = ''Investments'') assets;
          businessAssets = filter (\<lambda>a. asset_category a = ''Business'') assets;
          advice = advice @ ''1. Based on your current assets:\<newline>'';
          advice =
            (if length realEstateAssets = 0 then
               advice @ ''   - Consider investing in real estate for long-term appreciation and rental income\<newline>''
             else
               advice @ ''   - Look for opportunities to increase the value of your existing properties\<newline>''
                      @ ''   - Consider refinancing to access equity for additional investments\<newline>'');
          advice =
            (if length investmentAssets = 0 then
               advice @ ''   - Start investing in stocks, bonds, or ETFs for long-term growth\<newline>''
             else
               advice @ ''   - Diversify your investment portfolio across different asset classes\<newline>''
                      @ ''   - Consider increasing your regular investment contributions\<newline>'');
          advice =
            (if length businessAssets = 0 then
               advice @ ''   - Explore starting a side business or investing in existing businesses\<newline>''
             else
               advice @ ''   - Look for ways to scale your existing business operations\<newline>''
                      @ ''   - Consider reinvesting profits to grow the business\<newline>'');
          advice = advice @ ''\<newline>2. General strategies to increase assets:\<newline>'';
          advice = advice @ ''   - Increase your savings rate to invest more money\<newline>'';
          advice = advice @ ''   - Focus on building passive income streams (rental properties, dividends, etc.)\<newline>'';
          advice = advice @ ''   - Invest in your skills and education to increase earning potential\<newline>'';
          advice = advice @ ''   - Consider tax-advantaged accounts like 401(k)s, IRAs, or HSAs\<newline>'';
          advice = advice @ ''   - Look for opportunities to convert expenses into assets (e.g., buying a home instead of renting)\<newline>''
      in advice)"

definition generateLiabilityReductionAdvice :: "host \<Rightarrow> Liability list \<Rightarrow> jsnum \<Rightarrow> string" where
  "generateLiabilityReductionAdvice h liabilities cashFlow =
     (let advice = ''Here are strategies to reduce your liabilities and become debt-free:\<newline>\<newline>'';
          highInterestLiabilities =
            filter (\<lambda>l. js_gt (liability_interestRate l) (Fin 5)) liabilities;
          totalLiabilities =
            foldl (\<lambda>sum l. js_add sum (liability_amount l)) (Fin 0) liabilities;
          advice = advice @ ''1. Based on your current liabilities:\<newline>'';
          advice =
            (if 0 < length highInterestLiabilities then
               advice @ ''   - Prioritize paying off high-interest debt first (debt avalanche method)\<newline>''
                      @ ''   - Consider debt consolidation or refinancing to lower interest rates\<newline>''
             else advice);
          advice =
            (if js_gt totalLiabilities (Fin 0) then
               advice @ ''   - Create a debt repayment plan with specific timelines\<newline>''
                      @ ''   - Allocate ''
                      @ toFixed h
                          (Math_min (Fin 20)
                             (Math_max (Fin 5)
                                (js_mul (js_div cashFlow totalLiabilities) (Fin 100)))) 0
                      @ ''% of your monthly cash flow to debt repayment\<newline>''
             else advice);
          advice = advice @ ''\<newline>2. Specific debt reduction strategies:\<newline>'';
          advice = advice @ ''   - Use the debt snowball method: pay minimum on all debts, then put extra toward the smallest debt\<newline>'';
          advice = advice @ ''   - Consider balance transfer cards with 0% introductory rates for credit card debt\<newline>'';
          advice = advice @ ''   - Look for ways to increase your income to accelerate debt repayment\<newline>'';
          advice = advice @ ''   - Cut unnecessary expenses to free up more money for debt payments\<newline>'';
          advice = advice @ ''   - Consider selling assets to pay down high-interest debt\<newline>''
      in advice)"

text \<open>
  The month count of the two goal filters; \<open>None\<close> is the NaN that an invalid target
  date gives, for which both comparisons are false. \<open>today\<close> is the time value of
  \<open>new Date()\<close>.
\<close>

definition monthsUntilTarget :: "host \<Rightarrow> int \<Rightarrow> jsdate \<Rightarrow> int option" where
  "monthsUntilTarget h today targetDate =
     (case targetDate of
        InvalidDate \<Rightarrow> None
      | ValidDate t \<Rightarrow>
          Some ((Date_getFullYear h t - Date_getFullYear h today) * 12
                + (Date_getMonth h t - Date_getMonth h today)))"

definition generateGoalAchievementAdvice ::
  "host \<Rightarrow> int \<Rightarrow> Goal list \<Rightarrow> jsnum \<Rightarrow> jsnum \<Rightarrow> string" where
  "generateGoalAchievementAdvice h today goals cashFlow netWorth =
     (let advice = ''Here are strategies to help you achieve your financial goals:\<newline>\<newline>'';
          shortTermGoals =
            filter (\<lambda>g. case monthsUntilTarget h today (goal_targetDate g) of
                          None \<Rightarrow> False | Some m \<Rightarrow> m \<le> 12) goals;
          longTermGoals =
            filter (\<lambda>g. case monthsUntilTarget h today (goal_targetDate g) of
                          None \<Rightarrow> False | Some m \<Rightarrow> 12 < m) goals;
          advice = advice @ ''1. Based on your current goals:\<newline>'';
          advice =
            (if 0 < length shortTermGoals then
               advice @ ''   - For short-term goals (within 1 year), focus on saving a specific amount each month\<newline>''
                      @ ''   - Consider using a high-yield savings account for short-term goals\<newline>''
             else advice);
          advice =
            (if 0 < length longTermGoals then
               advice @ ''   - For long-term goals, invest in growth-oriented assets like stocks or real estate\<newline>''
                      @ ''   - Take advantage of compound interest by starting early\<newline>''
             else advice);
          advice = advice @ ''\<newline>2. General strategies to achieve your goals:\<newline>'';
          advice = advice @ ''   - Make your goals SMART: Specific, Measurable, Achievable, Relevant, Time-bound\<newline>'';
          advice = advice @ ''   - Automate savings and investments to ensure consistent progress\<newline>'';
          advice = advice @ ''   - Review your goals regularly and adjust as needed\<newline>'';
          advice = advice @ ''   - Celebrate small wins along the way to stay motivated\<newline>'';
          advice = advice @ ''   - Consider using apps or tools to track your progress\<newline>''
      in advice)"

definition generateGeneralFinancialAdvice ::
  "host \<Rightarrow> Income list \<Rightarrow> Expense list \<Rightarrow> Asset list \<Rightarrow> Liability list \<Rightarrow> Goal list
     \<Rightarrow> jsnum \<Rightarrow> jsnum \<Rightarrow> jsnum \<Rightarrow> string" where
  "generateGeneralFinancialAdvice h incomes expenses assets liabilities goals cashFlow
      passiveIncome netWorth =
     (let advice = ''Based on your financial data, here's a comprehensive overview and advice:\<newline>\<newline>'';
          activeIncome =
            foldl (\<lambda>sum i. js_add sum (parseFloat (toString_num (income_amount i)))) (Fin 0)
              (filter (\<lambda>i. income_type i = ''active'') incomes);
          passiveIncomePercentage =
            (if js_gt activeIncome (Fin 0)
             then js_mul (js_div passiveIncome activeIncome) (Fin 100) else Fin 0);
          advice = advice @ ''1. Income: Your active income is '' @ toFixed h activeIncome 2
                     @ '', with '' @ toFixed h passiveIncomePercentage 1
                     @ ''% coming from passive sources. '';
          advice = advice @ ''To increase your income:\<newline>'';
          advice = advice @ ''   - Look for opportunities to increase your active income (raises, side hustles)\<newline>'';
          advice = advice @ ''   - Focus on building passive income streams (investments, rental properties)\<newline>'';
          advice = advice @ ''   - Develop new skills that command higher pay\<newline>\<newline>'';
          totalExpenses =
            foldl (\<lambda>sum e. js_add sum (parseFloat (toString_num (expense_amount e)))) (Fin 0)
              expenses;
          advice = advice @ ''2. Expenses: Your monthly expenses total ''
                     @ toFixed h totalExpenses 2 @ ''. '';
          advice = advice @ ''To optimize your spending:\<newline>'';
          advice = advice @ ''   - Review your largest expense categories for potential savings\<newline>'';
          advice = advice @ ''   - Consider the 50/30/20 budget rule\<newline>'';
          advice = advice @ ''   - Look for ways to reduce recurring expenses\<newline>\<newline>'';
          totalAssets =
            foldl (\<lambda>sum a. js_add sum (parseFloat (toString_num (asset_value a)))) (Fin 0)
              assets;
          advice = advice @ ''3. Assets: Your total assets are valued at ''
                     @ toFixed h totalAssets 2 @ ''. '';
          advice = advice @ ''To grow your assets:\<newline>'';
          advice = advice @ ''   - Diversify your investments across different asset classes\<newline>'';
          advice = advice @ ''   - Reinvest returns to take advantage of compound growth\<newline>'';
          advice = advice @ ''   - Consider tax-advantaged investment accounts\<newline>\<newline>'';
          totalLiabilities =
            foldl (\<lambda>sum l. js_add sum (parseFloat (toString_num (liability_amount l))))
              (Fin 0) liabilities;
          advice = advice @ ''4. Liabilities: Your total liabilities are ''
                     @ toFixed h totalLiabilities 2 @ ''. '';
          advice = advice @ ''To reduce your debt:\<newline>'';
          advice = advice @ ''   - Prioritize high-interest debt first\<newline>'';
          advice = advice @ ''   - Consider debt consolidation for lower interest rates\<newline>'';
          advice = advice @ ''   - Create a specific debt repayment plan\<newline>\<newline>'';
          advice = advice @ ''5. Net Worth: Your current net worth is ''
                     @ toFixed h netWorth 2 @ ''. '';
          advice = advice @ ''To increase your net worth:\<newline>'';
          advice = advice @ ''   - Focus on increasing assets while reducing liabilities\<newline>'';
          advice = advice @ ''   - Maintain a positive cash flow to fund investments\<newline>'';
          advice = advice @ ''   - Set specific net worth goals and track progress regularly\<newline>\<newline>'';
          advice = advice @ ''6. Goals: You have '' @ digits_of_nat (length goals)
                     @ '' financial goals. '';
          advice = advice @ ''To achieve your goals:\<newline>'';
          advice = advice @ ''   - Prioritize goals based on importance and timeline\<newline>'';
          advice = advice @ ''   - Allocate your resources (time, money) accordingly\<newline>'';
          advice = advice @ ''   - Review and adjust your goals regularly\<newline>''
      in advice)"

text \<open>The dispatcher: the first keyword test that holds on the lower-cased query wins.\<close>

definition generateFinancialAdvice :: "host \<Rightarrow> int \<Rightarrow> AIAssistantRequest \<Rightarrow> string" where
  "generateFinancialAdvice h today request =
     (let query = request_query request;
          userData = request_userData request;
          incomes = userData_incomes userData;
          expenses = userData_expenses userData;
          assets = userData_assets userData;
          liabilities = userData_liabilities userData;
          goals = userData_goals userData;
          summary = userData_summary userData;
          totalIncome = summary_totalIncome summary;
          totalExpenses = summary_totalExpenses summary;
          cashFlow = summary_cashFlow summary;
          passiveIncome = summary_passiveIncome summary;
          netWorth = summary_netWorth summary;
          largestExpenseCategory = summary_largestExpenseCategory summary;
          largestExpenseAmount = summary_largestExpenseAmount summary;
          lowerQuery = toLowerCase query
      in if includes_str lowerQuery ''reduce''
            \<and> (includes_str lowerQuery ''expense'' \<or> includes_str lowerQuery ''spending'')
         then generateExpenseReductionAdvice h expenses totalExpenses largestExpenseCategory
                largestExpenseAmount
         else if includes_str lowerQuery ''increase'' \<and> includes_str lowerQuery ''asset''
         then generateAssetIncreaseAdvice assets netWorth passiveIncome
         else if (includes_str lowerQuery ''reduce'' \<or> includes_str lowerQuery ''pay off'')
                 \<and> includes_str lowerQuery ''liability''
         then generateLiabilityReductionAdvice h liabilities cashFlow
         else if includes_str lowerQuery ''goal'' \<or> includes_str lowerQuery ''reach''
         then generateGoalAchievementAdvice h today goals cashFlow netWorth
         else generateGeneralFinancialAdvice h incomes expenses assets liabilities goals
                cashFlow passiveIncome netWorth)"

section \<open>The database (schema.ts, db.ts)\<close>

text \<open>
  A table is the list of its rows. A column declared \<open>notNull\<close> has the type of its
  values; a nullable column is a \<open>nullable\<close> value, so that SQL NULL (JavaScript
  \<open>null\<close>) and JavaScript \<open>undefined\<close> (\<open>None\<close> of an \<open>option\<close>) stay apart. A
  \<open>numeric\<close> column holds decimal text, a \<open>timestamp\<close> column a time value in
  milliseconds, and the \<open>date\<close> column of goals a day number (days since the epoch).
  The \<open>id\<close> columns are primary keys. The order in which a query returns rows is the
  order of the list; the engine's checks on the text of a uuid are not modelled.
\<close>

datatype 'a nullable = Null | Value 'a

record users_row =
  users_id :: int
  users_username :: string
  users_password :: "string nullable"
  users_email :: string
  users_googleId :: "string nullable"
  users_googleName :: "string nullable"
  users_googlePicture :: "string nullable"
  users_createdAt :: int
  users_lastLogin :: "int nullable"

record incomes_row =
  incomes_id :: string
  incomes_userId :: int
  incomes_source :: string
  incomes_category :: string
  incomes_amount :: decimal_text
  incomes_type :: string
  incomes_frequency :: string
  incomes_notes :: "string nullable"
  incomes_createdAt :: int

record expenses_row =
  expenses_id :: string
  expenses_userId :: int
  expenses_category :: string
  expenses_amount :: decimal_text
  expenses_description :: string
  expenses_date :: int
  expenses_notes :: "string nullable"
  expenses_createdAt :: int

record assets_row =
  assets_id :: string
  assets_userId :: int
  assets_name :: string
  assets_category :: string
  assets_value :: decimal_text
  assets_incomeGenerated :: decimal_text
  assets_notes :: "string nullable"
  assets_createdAt :: int

record liabilities_row =
  liabilities_id :: string
  liabilities_userId :: int
  liabilities_description :: string
  liabilities_type :: string
  liabilities_amount :: decimal_text
  liabilities_interestRate :: decimal_text
  liabilities_notes :: "string nullable"
  liabilities_createdAt :: int

record goals_row =
  goals_id :: string
  goals_userId :: int
  goals_description :: string
  goals_targetAmount :: decimal_text
  goals_currentAmount :: decimal_text
  goals_targetDate :: int
  goals_createdAt :: int

record db =
  users_tbl :: "users_row list"
  incomes_tbl :: "incomes_row list"
  expenses_tbl :: "expenses_row list"
  assets_tbl :: "assets_row list"
  liabilities_tbl :: "liabilities_row list"
  goals_tbl :: "goals_row list"

text \<open>
  What the code throws: an \<open>Error\<close> with its message, the \<open>TypeError\<close> of a method
  call on \<open>undefined\<close>, the \<open>RangeError\<close> of \<open>toISOString\<close> on an invalid date, or an
  error of the database engine. A \<open>ZodError\<close> comes from a schema's \<open>parse\<close> only and is
  the \<open>Inl\<close> of its result: the list of issues, each the path of a field and the issue
  code.
\<close>

datatype zod_issue = ZodIssue string string

datatype exn = Error string | TypeError string | RangeError string | PostgresError string

subsection \<open>The query builder\<close>

definition select_where :: "('r \<Rightarrow> bool) \<Rightarrow> 'r list \<Rightarrow> 'r list" where
  "select_where p rows = filter p rows"

definition update_where :: "('r \<Rightarrow> bool) \<Rightarrow> ('r \<Rightarrow> 'r) \<Rightarrow> 'r list \<Rightarrow> 'r list" where
  "update_where p f rows = map (\<lambda>r. if p r then f r else r) rows"

definition delete_where :: "('r \<Rightarrow> bool) \<Rightarrow> 'r list \<Rightarrow> 'r list" where
  "delete_where p rows = filter (\<lambda>r. \<not> p r) rows"

text \<open>\<open>insert ... returning\<close>: the primary key must be new; the new row is returned.\<close>

definition insert_returning :: "('r \<Rightarrow> string) \<Rightarrow> 'r \<Rightarrow> 'r list \<Rightarrow> exn + ('r list \<times> 'r list)" where
  "insert_returning pk r rows =
     (if pk r \<in> set (map pk rows)
      then Inl (PostgresError ''duplicate key value violates unique constraint'')
      else Inr ([r], rows @ [r]))"

text \<open>The nullish coalescing of the repository: \<open>x ?? undefined\<close> on a column, \<open>x ?? null\<close> on a field.\<close>

fun or_undefined :: "'a nullable \<Rightarrow> 'a option" where
  "or_undefined Null = None"
| "or_undefined (Value v) = Some v"

fun or_null :: "'a option \<Rightarrow> 'a nullable" where
  "or_null None = Null"
| "or_null (Some v) = Value v"

text \<open>
  A \<open>Date\<close> written to a timestamp column goes through \<open>toISOString\<close>, which throws on
  an invalid date; the \<open>date\<close> column keeps the calendar day of the ISO text.
\<close>

definition toISOString :: "jsdate \<Rightarrow> exn + int" where
  "toISOString d =
     (case d of InvalidDate \<Rightarrow> Inl (RangeError ''Invalid time value'') | ValidDate t \<Rightarrow> Inr t)"

definition day_of_time :: "int \<Rightarrow> int" where
  "day_of_time t = t div 86400000"

definition time_of_day :: "int \<Rightarrow> int" where
  "time_of_day d = d * 86400000"

section \<open>The repository (storage.ts, class PostgresStorage)\<close>

text \<open>
  Every operation takes the database and, when it writes, returns the new one. The
  result of \<open>uuidv4()\<close> and the time of \<open>new Date()\<close> are arguments. An operation that
  can throw returns a sum, \<open>Inl\<close> the exception. The object literal that maps a row to
  an API object is written once per table (\<open>mapIncome\<close>, ...). The fallback
  \<open>createdAt ?? new Date()\<close> never applies, the column being \<open>notNull\<close>.
\<close>

subsection \<open>Incomes\<close>

text \<open>\<open>Omit<Income, "id" | "createdAt">\<close> and its \<open>Partial\<close>.\<close>

record NewIncome =
  newIncome_userId :: int
  newIncome_source :: string
  newIncome_category :: string
  newIncome_amount :: jsnum
  newIncome_type :: string
  newIncome_frequency :: string
  newIncome_notes :: "string option"

record IncomePatch =
  incomePatch_userId :: "int option"
  incomePatch_source :: "string option"
  incomePatch_category :: "string option"
  incomePatch_amount :: "jsnum option"
  incomePatch_type :: "string option"
  incomePatch_frequency :: "string option"
  incomePatch_notes :: "string option"

definition mapIncome :: "incomes_row \<Rightarrow> Income" where
  "mapIncome income =
     \<lparr>income_id = incomes_id income,
      income_userId = incomes_userId income,
      income_source = incomes_source income,
      income_category = incomes_category income,
      income_amount = parseFloat (incomes_amount income),
      income_type = incomes_type income,
      income_frequency = incomes_frequency income,
      income_notes = or_undefined (incomes_notes income),
      income_createdAt = ValidDate (incomes_createdAt income)\<rparr>"

definition getAllIncomes :: "int \<Rightarrow> db \<Rightarrow> Income list" where
  "getAllIncomes userId d =
     (let result = select_where (\<lambda>r. incomes_userId r = userId) (incomes_tbl d)
      in map mapIncome result)"

definition getIncome :: "string \<Rightarrow> int \<Rightarrow> db \<Rightarrow> Income option" where
  "getIncome id' userId d =
     (let result =
            select_where (\<lambda>r. incomes_id r = id' \<and> incomes_userId r = userId) (incomes_tbl d)
      in case result of [] \<Rightarrow> None | r # _ \<Rightarrow> Some (mapIncome r))"

definition createIncome :: "string \<Rightarrow> int \<Rightarrow> NewIncome \<Rightarrow> db \<Rightarrow> exn + (Income \<times> db)" where
  "createIncome id' now income d =
     (let incomeData =
            \<lparr>incomes_id = id',
             incomes_userId = newIncome_userId income,
             incomes_source = newIncome_source income,
             incomes_category = newIncome_category income,
             incomes_amount = toString_num (newIncome_amount income),
             incomes_type = newIncome_type income,
             incomes_frequency = newIncome_frequency income,
             incomes_notes = or_null (newIncome_notes income),
             incomes_createdAt = now\<rparr>
      in case insert_returning incomes_id incomeData (incomes_tbl d) of
           Inl e \<Rightarrow> Inl e
         | Inr (result, rows) \<Rightarrow>
             (case result of
                [] \<Rightarrow> Inl (Error ''Failed to create income - no result returned'')
              | r # _ \<Rightarrow> Inr (mapIncome r, d\<lparr>incomes_tbl := rows\<rparr>)))"

text \<open>
  \<open>set(updateData)\<close> leaves a column alone when its value is \<open>undefined\<close>. The update
  data always carries \<open>notes\<close>: \<open>income.notes ?? null\<close>.
\<close>

definition set_column :: "'a option \<Rightarrow> 'a \<Rightarrow> 'a" where
  "set_column v old = (case v of None \<Rightarrow> old | Some x \<Rightarrow> x)"

definition updateIncome :: "string \<Rightarrow> IncomePatch \<Rightarrow> int \<Rightarrow> db \<Rightarrow> db" where
  "updateIncome id' income userId d =
     (let amount = map_option toString_num (incomePatch_amount income);
          notes = or_null (incomePatch_notes income)
      in d\<lparr>incomes_tbl :=
            update_where (\<lambda>r. incomes_id r = id' \<and> incomes_userId r = userId)
              (\<lambda>r. r\<lparr>incomes_userId := set_column (incomePatch_userId income) (incomes_userId r),
                      incomes_source := set_column (incomePatch_source income) (incomes_source r),
                      incomes_category :=
                        set_column (incomePatch_category income) (incomes_category r),
                      incomes_amount := set_column amount (incomes_amount r),
                      incomes_type := set_column (incomePatch_type income) (incomes_type r),
                      incomes_frequency :=
                        set_column (incomePatch_frequency income) (incomes_frequency r),
                      incomes_notes := notes\<rparr>)
              (incomes_tbl d)\<rparr>)"

definition deleteIncome :: "string \<Rightarrow> int \<Rightarrow> db \<Rightarrow> db" where
  "deleteIncome id' userId d =
     d\<lparr>incomes_tbl :=
         delete_where (\<lambda>r. incomes_id r = id' \<and> incomes_userId r = userId) (incomes_tbl d)\<rparr>"

subsection \<open>Expenses\<close>

record NewExpense =
  newExpense_userId :: int
  newExpense_category :: string
  newExpense_amount :: jsnum
  newExpense_description :: string
  newExpense_date :: jsdate
  newExpense_notes :: "string option"

record ExpensePatch =
  expensePatch_userId :: "int option"
  expensePatch_category :: "string option"
  expensePatch_amount :: "jsnum option"
  expensePatch_description :: "string option"
  expensePatch_date :: "jsdate option"
  expensePatch_notes :: "string option"

definition mapExpense :: "expenses_row \<Rightarrow> Expense" where
  "mapExpense expense =
     \<lparr>expense_id = expenses_id expense,
      expense_userId = expenses_userId expense,
      expense_category = expenses_category expense,
      expense_amount = parseFloat (expenses_amount expense),
      expense_description = expenses_description expense,
      expense_date = ValidDate (expenses_date expense),
      expense_notes = or_undefined (expenses_notes expense),
      expense_createdAt = ValidDate (expenses_createdAt expense)\<rparr>"

definition getAllExpenses :: "int \<Rightarrow> db \<Rightarrow> Expense list" where
  "getAllExpenses userId d =
     (let result = select_where (\<lambda>r. expenses_userId r = userId) (expenses_tbl d)
      in map mapExpense result)"

definition getExpense :: "string \<Rightarrow> int \<Rightarrow> db \<Rightarrow> Expense option" where
  "getExpense id' userId d =
     (let result =
            select_where (\<lambda>r. expenses_id r = id' \<and> expenses_userId r = userId)
              (expenses_tbl d)
      in case result of [] \<Rightarrow> None | r # _ \<Rightarrow> Some (mapExpense r))"

text \<open>The driver writes the \<open>Date\<close> of the \<open>date\<close> column with \<open>toISOString\<close>.\<close>

definition createExpense :: "string \<Rightarrow> int \<Rightarrow> NewExpense \<Rightarrow> db \<Rightarrow> exn + (Expense \<times> db)" where
  "createExpense id' now expense d =
     (case toISOString (newExpense_date expense) of
        Inl e \<Rightarrow> Inl e
      | Inr date \<Rightarrow>
          (let expenseData =
                 \<lparr>expenses_id = id',
                  expenses_userId = newExpense_userId expense,
                  expenses_category = newExpense_category expense,
                  expenses_amount = toString_num (newExpense_amount expense),
                  expenses_description = newExpense_description expense,
                  expenses_date = date,
                  expenses_notes = or_null (newExpense_notes expense),
                  expenses_createdAt = now\<rparr>
           in case insert_returning expenses_id expenseData (expenses_tbl d) of
                Inl e \<Rightarrow> Inl e
              | Inr (result, rows) \<Rightarrow>
                  (case result of
                     [] \<Rightarrow> Inl (TypeError ''Cannot read properties of undefined'')
                   | r # _ \<Rightarrow> Inr (mapExpense r, d\<lparr>expenses_tbl := rows\<rparr>))))"

definition updateExpense :: "string \<Rightarrow> ExpensePatch \<Rightarrow> int \<Rightarrow> db \<Rightarrow> exn + db" where
  "updateExpense id' expense userId d =
     (let amount = map_option toString_num (expensePatch_amount expense);
          notes = or_null (expensePatch_notes expense)
      in case (case expensePatch_date expense of
                 None \<Rightarrow> Inr None
               | Some dt \<Rightarrow> (case toISOString dt of Inl e \<Rightarrow> Inl e | Inr t \<Rightarrow> Inr (Some t))) of
           Inl e \<Rightarrow> Inl e
         | Inr date \<Rightarrow>
             Inr (d\<lparr>expenses_tbl :=
                     update_where (\<lambda>r. expenses_id r = id' \<and> expenses_userId r = userId)
                       (\<lambda>r. r\<lparr>expenses_userId :=
                                 set_column (expensePatch_userId expense) (expenses_userId r),
                               expenses_category :=
                                 set_column (expensePatch_category expense) (expenses_category r),
                               expenses_amount := set_column amount (expenses_amount r),
                               expenses_description :=
                                 set_column (expensePatch_description expense)
                                   (expenses_description r),
                               expenses_date := set_column date (expenses_date r),
                               expenses_notes := notes\<rparr>)
                       (expenses_tbl d)\<rparr>))"

definition deleteExpense :: "string \<Rightarrow> int \<Rightarrow> db \<Rightarrow> db" where
  "deleteExpense id' userId d =
     d\<lparr>expenses_tbl :=
         delete_where (\<lambda>r. expenses_id r = id' \<and> expenses_userId r = userId) (expenses_tbl d)\<rparr>"

subsection \<open>Assets\<close>

record NewAsset =
  newAsset_userId :: int
  newAsset_name :: string
  newAsset_category :: string
  newAsset_value :: jsnum
  newAsset_incomeGenerated :: jsnum
  newAsset_notes :: "string option"

record AssetPatch =
  assetPatch_userId :: "int option"
  assetPatch_name :: "string option"
  assetPatch_category :: "string option"
  assetPatch_value :: "jsnum option"
  assetPatch_incomeGenerated :: "jsnum option"
  assetPatch_notes :: "string option"

definition mapAsset :: "assets_row \<Rightarrow> Asset" where
  "mapAsset asset =
     \<lparr>asset_id = assets_id asset,
      asset_userId = assets_userId asset,
      asset_name = assets_name asset,
      asset_category = assets_category asset,
      asset_value = parseFloat (assets_value asset),
      asset_incomeGenerated = parseFloat (assets_incomeGenerated asset),
      asset_notes = or_undefined (assets_notes asset),
      asset_createdAt = ValidDate (assets_createdAt asset)\<rparr>"

definition getAllAssets :: "int \<Rightarrow> db \<Rightarrow> Asset list" where
  "getAllAssets userId d =
     (let result = select_where (\<lambda>r. assets_userId r = userId) (assets_tbl d)
      in map mapAsset result)"

definition getAsset :: "string \<Rightarrow> int \<Rightarrow> db \<Rightarrow> Asset option" where
  "getAsset id' userId d =
     (let result =
            select_where (\<lambda>r. assets_id r = id' \<and> assets_userId r = userId) (assets_tbl d)
      in case result of [] \<Rightarrow> None | r # _ \<Rightarrow> Some (mapAsset r))"

definition createAsset :: "string \<Rightarrow> int \<Rightarrow> NewAsset \<Rightarrow> db \<Rightarrow> exn + (Asset \<times> db)" where
  "createAsset id' now asset d =
     (let assetData =
            \<lparr>assets_id = id',
             assets_userId = newAsset_userId asset,
             assets_name = newAsset_name asset,
             assets_category = newAsset_category asset,
             assets_value = toString_num (newAsset_value asset),
             assets_incomeGenerated = toString_num (newAsset_incomeGenerated asset),
             assets_notes = or_null (newAsset_notes asset),
             assets_createdAt = now\<rparr>
      in case insert_returning assets_id assetData (assets_tbl d) of
           Inl e \<Rightarrow> Inl e
         | Inr (result, rows) \<Rightarrow>
             (case result of
                [] \<Rightarrow> Inl (TypeError ''Cannot read properties of undefined'')
              | r # _ \<Rightarrow> Inr (mapAsset r, d\<lparr>assets_tbl := rows\<rparr>)))"

definition updateAsset :: "string \<Rightarrow> AssetPatch \<Rightarrow> int \<Rightarrow> db \<Rightarrow> db" where
  "updateAsset id' asset userId d =
     (let val = map_option toString_num (assetPatch_value asset);
          incomeGenerated = map_option toString_num (assetPatch_incomeGenerated asset);
          notes = or_null (assetPatch_notes asset)
      in d\<lparr>assets_tbl :=
            update_where (\<lambda>r. assets_id r = id' \<and> assets_userId r = userId)
              (\<lambda>r. r\<lparr>assets_userId := set_column (assetPatch_userId asset) (assets_userId r),
                      assets_name := set_column (assetPatch_name asset) (assets_name r),
                      assets_category :=
                        set_column (assetPatch_category asset) (assets_category r),
                      assets_value := set_column val (assets_value r),
                      assets_incomeGenerated :=
                        set_column incomeGenerated (assets_incomeGenerated r),
                      assets_notes := notes\<rparr>)
              (assets_tbl d)\<rparr>)"

definition deleteAsset :: "string \<Rightarrow> int \<Rightarrow> db \<Rightarrow> db" where
  "deleteAsset id' userId d =
     d\<lparr>assets_tbl :=
         delete_where (\<lambda>r. assets_id r = id' \<and> assets_userId r = userId) (assets_tbl d)\<rparr>"

subsection \<open>Liabilities\<close>

record NewLiability =
  newLiability_userId :: int
  newLiability_description :: string
  newLiability_type :: string
  newLiability_amount :: jsnum
  newLiability_interestRate :: jsnum
  newLiability_notes :: "string option"

record LiabilityPatch =
  liabilityPatch_userId :: "int option"
  liabilityPatch_description :: "string option"
  liabilityPatch_type :: "string option"
  liabilityPatch_amount :: "jsnum option"
  liabilityPatch_interestRate :: "jsnum option"
  liabilityPatch_notes :: "string option"

definition mapLiability :: "liabilities_row \<Rightarrow> Liability" where
  "mapLiability liability =
     \<lparr>liability_id = liabilities_id liability,
      liability_userId = liabilities_userId liability,
      liability_description = liabilities_description liability,
      liability_type = liabilities_type liability,
      liability_amount = parseFloat (liabilities_amount liability),
      liability_interestRate = parseFloat (liabilities_interestRate liability),
      liability_notes = or_undefined (liabilities_notes liability),
      liability_createdAt = ValidDate (liabilities_createdAt liability)\<rparr>"

definition getAllLiabilities :: "int \<Rightarrow> db \<Rightarrow> Liability list" where
  "getAllLiabilities userId d =
     (let result = select_where (\<lambda>r. liabilities_userId r = userId) (liabilities_tbl d)
      in map mapLiability result)"

definition getLiability :: "string \<Rightarrow> int \<Rightarrow> db \<Rightarrow> Liability option" where
  "getLiability id' userId d =
     (let result =
            select_where (\<lambda>r. liabilities_id r = id' \<and> liabilities_userId r = userId)
              (liabilities_tbl d)
      in case result of [] \<Rightarrow> None | r # _ \<Rightarrow> Some (mapLiability r))"

definition createLiability ::
  "string \<Rightarrow> int \<Rightarrow> NewLiability \<Rightarrow> db \<Rightarrow> exn + (Liability \<times> db)" where
  "createLiability id' now liability d =
     (let liabilityData =
            \<lparr>liabilities_id = id',
             liabilities_userId = newLiability_userId liability,
             liabilities_description = newLiability_description liability,
             liabilities_type = newLiability_type liability,
             liabilities_amount = toString_num (newLiability_amount liability),
             liabilities_interestRate = toString_num (newLiability_interestRate liability),
             liabilities_notes = or_null (newLiability_notes liability),
             liabilities_createdAt = now\<rparr>
      in case insert_returning liabilities_id liabilityData (liabilities_tbl d) of
           Inl e \<Rightarrow> Inl e
         | Inr (result, rows) \<Rightarrow>
             (case result of
                [] \<Rightarrow> Inl (Error ''Failed to create liability'')
              | r # _ \<Rightarrow> Inr (mapLiability r, d\<lparr>liabilities_tbl := rows\<rparr>)))"

definition updateLiability :: "string \<Rightarrow> LiabilityPatch \<Rightarrow> int \<Rightarrow> db \<Rightarrow> db" where
  "updateLiability id' liability userId d =
     (let amount = map_option toString_num (liabilityPatch_amount liability);
          interestRate = map_option toString_num (liabilityPatch_interestRate liability);
          notes = or_null (liabilityPatch_notes liability)
      in d\<lparr>liabilities_tbl :=
            update_where (\<lambda>r. liabilities_id r = id' \<and> liabilities_userId r = userId)
              (\<lambda>r. r\<lparr>liabilities_userId :=
                        set_column (liabilityPatch_userId liability) (liabilities_userId r),
                      liabilities_description :=
                        set_column (liabilityPatch_description liability)
                          (liabilities_description r),
                      liabilities_type :=
                        set_column (liabilityPatch_type liability) (liabilities_type r),
                      liabilities_amount := set_column amount (liabilities_amount r),
                      liabilities_interestRate :=
                        set_column interestRate (liabilities_interestRate r),
                      liabilities_notes := notes\<rparr>)
              (liabilities_tbl d)\<rparr>)"

definition deleteLiability :: "string \<Rightarrow> int \<Rightarrow> db \<Rightarrow> db" where
  "deleteLiability id' userId d =
     d\<lparr>liabilities_tbl :=
         delete_where (\<lambda>r. liabilities_id r = id' \<and> liabilities_userId r = userId)
           (liabilities_tbl d)\<rparr>"

subsection \<open>Goals\<close>

record NewGoal =
  newGoal_userId :: int
  newGoal_description :: string
  newGoal_targetAmount :: jsnum
  newGoal_currentAmount :: jsnum
  newGoal_targetDate :: jsdate

record GoalPatch =
  goalPatch_userId :: "int option"
  goalPatch_description :: "string option"
  goalPatch_targetAmount :: "jsnum option"
  goalPatch_currentAmount :: "jsnum option"
  goalPatch_targetDate :: "jsdate option"

text \<open>\<open>new Date(goal.targetDate)\<close> reads the day of the \<open>date\<close> column as midnight UTC.\<close>

definition mapGoal :: "goals_row \<Rightarrow> Goal" where
  "mapGoal goal =
     \<lparr>goal_id = goals_id goal,
      goal_userId = goals_userId goal,
      goal_description = goals_description goal,
      goal_targetAmount = parseFloat (goals_targetAmount goal),
      goal_currentAmount = parseFloat (goals_currentAmount goal),
      goal_targetDate = ValidDate (time_of_day (goals_targetDate goal)),
      goal_createdAt = ValidDate (goals_createdAt goal)\<rparr>"



definition createGoal :: "string \<Rightarrow> int \<Rightarrow> NewGoal \<Rightarrow> db \<Rightarrow> exn + (Goal \<times> db)" where
  "createGoal id' now goal d =
     (case toISOString (newGoal_targetDate goal) of
        Inl e \<Rightarrow> Inl e
      | Inr targetDate \<Rightarrow>
          (let goalData =
                 \<lparr>goals_id = id',
                  goals_userId = newGoal_userId goal,
                  goals_description = newGoal_description goal,
                  goals_targetAmount = toString_num (newGoal_targetAmount goal),
                  goals_currentAmount = toString_num (newGoal_currentAmount goal),
                  goals_targetDate = day_of_time targetDate,
                  goals_createdAt = now\<rparr>
           in case insert_returning goals_id goalData (goals_tbl d) of
                Inl e \<Rightarrow> Inl e
              | Inr (result, rows) \<Rightarrow>
                  (case result of
                     [] \<Rightarrow> Inl (TypeError ''Cannot read properties of undefined'')
                   | r # _ \<Rightarrow> Inr (mapGoal r, d\<lparr>goals_tbl := rows\<rparr>))))"

text \<open>
  Goals have no \<open>notes\<close>. What the query builder does with a patch that sets no column
  at all is outside the model: such a patch leaves the table as it is here, and the
  routes never send one.
\<close>

definition updateGoal :: "string \<Rightarrow> GoalPatch \<Rightarrow> int \<Rightarrow> db \<Rightarrow> exn + db" where
  "updateGoal id' goal userId d =
     (let targetAmount = map_option toString_num (goalPatch_targetAmount goal);
          currentAmount = map_option toString_num (goalPatch_currentAmount goal)
      in case (case goalPatch_targetDate goal of
                 None \<Rightarrow> Inr None
               | Some dt \<Rightarrow>
                   (case toISOString dt of
                      Inl e \<Rightarrow> Inl e
                    | Inr t \<Rightarrow> Inr (Some (day_of_time t)))) of
           Inl e \<Rightarrow> Inl e
         | Inr targetDate \<Rightarrow>
             Inr (d\<lparr>goals_tbl :=
                     update_where (\<lambda>r. goals_id r = id' \<and> goals_userId r = userId)
                       (\<lambda>r. r\<lparr>goals_userId := set_column (goalPatch_userId goal) (goals_userId r),
                               goals_description :=
                                 set_column (goalPatch_description goal) (goals_description r),
                               goals_targetAmount :=
                                 set_column targetAmount (goals_targetAmount r),
                               goals_currentAmount :=
                                 set_column currentAmount (goals_currentAmount r),
                               goals_targetDate :=
                                 set_column targetDate (goals_targetDate r)\<rparr>)
                       (goals_tbl d)\<rparr>))"

definition deleteGoal :: "string \<Rightarrow> int \<Rightarrow> db \<Rightarrow> db" where
  "deleteGoal id' userId d =
     d\<lparr>goals_tbl :=
         delete_where (\<lambda>r. goals_id r = id' \<and> goals_userId r = userId) (goals_tbl d)\<rparr>"

section \<open>Authentication (auth.ts)\<close>

text \<open>\<open>bcrypt.compare\<close> rejects a missing hash with an \<open>Error\<close>.\<close>

definition comparePasswords :: "host \<Rightarrow> string \<Rightarrow> string nullable \<Rightarrow> exn + bool" where
  "comparePasswords h password hashedPassword =
     (case hashedPassword of
        Null \<Rightarrow> Inl (Error ''data and hash arguments required'')
      | Value hash \<Rightarrow> Inr (bcrypt_compare h password hash))"

definition generateToken :: "host \<Rightarrow> int \<Rightarrow> int \<Rightarrow> string \<Rightarrow> string" where
  "generateToken h now uid username = jwt_sign h uid username now"

record LoginUser =
  loginUser_id :: int
  loginUser_username :: string

record LoginResult =
  login_token :: string
  login_user :: LoginUser

definition login :: "host \<Rightarrow> int \<Rightarrow> string \<Rightarrow> string \<Rightarrow> db \<Rightarrow> exn + (LoginResult \<times> db)" where
  "login h now username password d =
     (let user = take 1 (select_where (\<lambda>r. users_username r = username) (users_tbl d))
      in case user of
           [] \<Rightarrow> Inl (Error ''User not found'')
         | u # _ \<Rightarrow>
             (case comparePasswords h password (users_password u) of
                Inl e \<Rightarrow> Inl e
              | Inr isValidPassword \<Rightarrow>
                  if \<not> isValidPassword then Inl (Error ''Invalid password'')
                  else
                    (let d' = d\<lparr>users_tbl :=
                                  update_where (\<lambda>r. users_id r = users_id u)
                                    (\<lambda>r. r\<lparr>users_lastLogin := Value now\<rparr>) (users_tbl d)\<rparr>;
                         token = generateToken h now (users_id u) (users_username u)
                     in Inr (\<lparr>login_token = token,
                              login_user = \<lparr>loginUser_id = users_id u,
                                            loginUser_username = users_username u\<rparr>\<rparr>, d'))))"

section \<open>The HTTP routes (routes.ts)\<close>

text \<open>
  A handler takes the parts of the request it reads, the caller's user id that
  \<open>authenticateToken\<close> put on the request, and the database; it returns the response
  and the new database. A JSON object of a request body is a record of optional fields,
  each of the type the schema declares when it is present. The database does not fail
  on its own in the model, so a \<open>catch\<close> branch is reached only by the exceptions
  modelled above.
\<close>

datatype 'a body = Json 'a | ErrorBody string | IssuesBody "zod_issue list" | NoBody

record 'a response =
  status :: nat
  body :: "'a body"

text \<open>\<open>!x\<close> on an optional string: \<open>undefined\<close> and the empty string are falsy.\<close>

definition truthy :: "string option \<Rightarrow> bool" where
  "truthy x = (case x of None \<Rightarrow> False | Some s \<Rightarrow> s \<noteq> [])"

definition error_message :: "exn \<Rightarrow> string" where
  "error_message e =
     (case e of
        Error m \<Rightarrow> m | TypeError m \<Rightarrow> m | RangeError m \<Rightarrow> m | PostgresError m \<Rightarrow> m)"

subsection \<open>POST /auth/login\<close>

definition post_auth_login ::
  "host \<Rightarrow> int \<Rightarrow> string option \<Rightarrow> string option \<Rightarrow> db \<Rightarrow> LoginResult response \<times> db" where
  "post_auth_login h now username password d =
     (if \<not> truthy username \<or> \<not> truthy password
      then (\<lparr>status = 400, body = ErrorBody ''Username and password are required''\<rparr>, d)
      else case login h now (the username) (the password) d of
             Inr (result, d') \<Rightarrow> (\<lparr>status = 200, body = Json result\<rparr>, d')
           | Inl error \<Rightarrow> (\<lparr>status = 401, body = ErrorBody (error_message error)\<rparr>, d))"

subsection \<open>DELETE /:id\<close>

definition delete_incomes_id :: "string \<Rightarrow> int \<Rightarrow> db \<Rightarrow> unit response \<times> db" where
  "delete_incomes_id id' userId d = (\<lparr>status = 204, body = NoBody\<rparr>, deleteIncome id' userId d)"

definition delete_expenses_id :: "string \<Rightarrow> int \<Rightarrow> db \<Rightarrow> unit response \<times> db" where
  "delete_expenses_id id' userId d = (\<lparr>status = 204, body = NoBody\<rparr>, deleteExpense id' userId d)"

definition delete_assets_id :: "string \<Rightarrow> int \<Rightarrow> db \<Rightarrow> unit response \<times> db" where
  "delete_assets_id id' userId d = (\<lparr>status = 204, body = NoBody\<rparr>, deleteAsset id' userId d)"

definition delete_liabilities_id :: "string \<Rightarrow> int \<Rightarrow> db \<Rightarrow> unit response \<times> db" where
  "delete_liabilities_id id' userId d =
     (\<lparr>status = 204, body = NoBody\<rparr>, deleteLiability id' userId d)"


subsection \<open>Request bodies\<close>

record IncomeJson =
  incomeJson_id :: "string option"
  incomeJson_source :: "string option"
  incomeJson_category :: "string option"
  incomeJson_amount :: "jsnum option"
  incomeJson_type :: "string option"
  incomeJson_frequency :: "string option"
  incomeJson_notes :: "string option"

record ExpenseJson =
  expenseJson_id :: "string option"
  expenseJson_category :: "string option"
  expenseJson_amount :: "jsnum option"
  expenseJson_description :: "string option"
  expenseJson_date :: "string option"
  expenseJson_notes :: "string option"

record AssetJson =
  assetJson_id :: "string option"
  assetJson_name :: "string option"
  assetJson_category :: "string option"
  assetJson_value :: "jsnum option"
  assetJson_incomeGenerated :: "jsnum option"
  assetJson_notes :: "string option"

record LiabilityJson =
  liabilityJson_id :: "string option"
  liabilityJson_description :: "string option"
  liabilityJson_type :: "string option"
  liabilityJson_amount :: "jsnum option"
  liabilityJson_interestRate :: "jsnum option"
  liabilityJson_notes :: "string option"

record GoalJson =
  goalJson_id :: "string option"
  goalJson_description :: "string option"
  goalJson_targetAmount :: "jsnum option"
  goalJson_currentAmount :: "jsnum option"
  goalJson_targetDate :: "string option"

text \<open>\<open>new Date(x)\<close> and \<open>Number(x)\<close> on a field that may be \<open>undefined\<close>.\<close>

definition new_Date :: "host \<Rightarrow> string option \<Rightarrow> jsdate" where
  "new_Date h x = (case x of None \<Rightarrow> InvalidDate | Some s \<Rightarrow> Date_parse h s)"

definition Number_of :: "jsnum option \<Rightarrow> jsnum" where
  "Number_of x = (case x of None \<Rightarrow> NaN | Some n \<Rightarrow> n)"

subsection \<open>The zod schemas (schema.ts)\<close>

text \<open>
  Each check returns the issues of one key: \<open>z.string()\<close>, \<open>z.string().min(1)\<close>,
  \<open>z.number()\<close> (which rejects NaN), \<open>z.number().min(0)\<close>, \<open>z.enum\<close> and \<open>z.date()\<close>
  (which rejects an invalid date). \<open>parse\<close> of an object schema collects the issues of
  its keys in the order of the schema and fails when there is one.
\<close>

definition z_string :: "string \<Rightarrow> string option \<Rightarrow> zod_issue list" where
  "z_string path v = (case v of None \<Rightarrow> [ZodIssue path ''invalid_type''] | Some s \<Rightarrow> [])"

definition z_string_min1 :: "string \<Rightarrow> string option \<Rightarrow> zod_issue list" where
  "z_string_min1 path v =
     (case v of
        None \<Rightarrow> [ZodIssue path ''invalid_type'']
      | Some s \<Rightarrow> if length s < 1 then [ZodIssue path ''too_small''] else [])"

definition z_number :: "string \<Rightarrow> jsnum option \<Rightarrow> zod_issue list" where
  "z_number path v =
     (case v of
        None \<Rightarrow> [ZodIssue path ''invalid_type'']
      | Some n \<Rightarrow> if n = NaN then [ZodIssue path ''invalid_type''] else [])"

definition z_number_min0 :: "string \<Rightarrow> jsnum option \<Rightarrow> zod_issue list" where
  "z_number_min0 path v =
     (case v of
        None \<Rightarrow> [ZodIssue path ''invalid_type'']
      | Some n \<Rightarrow>
          if n = NaN then [ZodIssue path ''invalid_type'']
          else if js_ge n (Fin 0) then [] else [ZodIssue path ''too_small''])"

definition z_enum :: "string \<Rightarrow> string list \<Rightarrow> string option \<Rightarrow> zod_issue list" where
  "z_enum path allowed v =
     (case v of
        None \<Rightarrow> [ZodIssue path ''invalid_type'']
      | Some s \<Rightarrow> if s \<in> set allowed then [] else [ZodIssue path ''invalid_enum_value''])"

definition z_date :: "string \<Rightarrow> jsdate option \<Rightarrow> zod_issue list" where
  "z_date path v =
     (case v of
        None \<Rightarrow> [ZodIssue path ''invalid_type'']
      | Some InvalidDate \<Rightarrow> [ZodIssue path ''invalid_date'']
      | Some (ValidDate t) \<Rightarrow> [])"

text \<open>\<open>incomeSchema.omit({ id: true, createdAt: true }).parse\<close>, and the same for the others.\<close>

definition parse_incomeSchema ::
  "int \<Rightarrow> string option \<Rightarrow> string option \<Rightarrow> jsnum option \<Rightarrow> string option \<Rightarrow> string option
     \<Rightarrow> string option \<Rightarrow> zod_issue list + NewIncome" where
  "parse_incomeSchema userId source category amount type frequency notes =
     (let issues =
            z_string ''source'' source @ z_string ''category'' category
            @ z_number ''amount'' amount @ z_enum ''type'' [''active'', ''passive''] type
            @ z_enum ''frequency''
                [''monthly'', ''bi-weekly'', ''weekly'', ''annually'', ''one-time''] frequency
      in if issues \<noteq> [] then Inl issues
         else Inr \<lparr>newIncome_userId = userId, newIncome_source = the source,
                   newIncome_category = the category, newIncome_amount = the amount,
                   newIncome_type = the type, newIncome_frequency = the frequency,
                   newIncome_notes = notes\<rparr>)"

definition parse_expenseSchema ::
  "int \<Rightarrow> string option \<Rightarrow> jsnum option \<Rightarrow> string option \<Rightarrow> jsdate option \<Rightarrow> string option
     \<Rightarrow> zod_issue list + NewExpense" where
  "parse_expenseSchema userId category amount description date notes =
     (let issues =
            z_string ''category'' category @ z_number ''amount'' amount
            @ z_string ''description'' description @ z_date ''date'' date
      in if issues \<noteq> [] then Inl issues
         else Inr \<lparr>newExpense_userId = userId, newExpense_category = the category,
                   newExpense_amount = the amount, newExpense_description = the description,
                   newExpense_date = the date, newExpense_notes = notes\<rparr>)"

definition parse_assetSchema ::
  "int \<Rightarrow> string option \<Rightarrow> string option \<Rightarrow> jsnum option \<Rightarrow> jsnum option \<Rightarrow> string option
     \<Rightarrow> zod_issue list + NewAsset" where
  "parse_assetSchema userId name category val incomeGenerated notes =
     (let issues =
            z_string_min1 ''name'' name @ z_string_min1 ''category'' category
            @ z_number_min0 ''value'' val @ z_number_min0 ''incomeGenerated'' incomeGenerated
      in if issues \<noteq> [] then Inl issues
         else Inr \<lparr>newAsset_userId = userId, newAsset_name = the name,
                   newAsset_category = the category, newAsset_value = the val,
                   newAsset_incomeGenerated = the incomeGenerated, newAsset_notes = notes\<rparr>)"

definition parse_liabilitySchema ::
  "int \<Rightarrow> string option \<Rightarrow> string option \<Rightarrow> jsnum option \<Rightarrow> jsnum option \<Rightarrow> string option
     \<Rightarrow> zod_issue list + NewLiability" where
  "parse_liabilitySchema userId description type amount interestRate notes =
     (let issues =
            z_string_min1 ''description'' description @ z_string_min1 ''type'' type
            @ z_number_min0 ''amount'' amount @ z_number_min0 ''interestRate'' interestRate
      in if issues \<noteq> [] then Inl issues
         else Inr \<lparr>newLiability_userId = userId, newLiability_description = the description,
                   newLiability_type = the type, newLiability_amount = the amount,
                   newLiability_interestRate = the interestRate, newLiability_notes = notes\<rparr>)"

definition parse_goalSchema ::
  "int \<Rightarrow> string option \<Rightarrow> jsnum option \<Rightarrow> jsnum option \<Rightarrow> jsdate option
     \<Rightarrow> zod_issue list + NewGoal" where
  "parse_goalSchema userId description targetAmount currentAmount targetDate =
     (let issues =
            z_string_min1 ''description'' description
            @ z_number_min0 ''targetAmount'' targetAmount
            @ z_number_min0 ''currentAmount'' currentAmount @ z_date ''targetDate'' targetDate
      in if issues \<noteq> [] then Inl issues
         else Inr \<lparr>newGoal_userId = userId, newGoal_description = the description,
                   newGoal_targetAmount = the targetAmount,
                   newGoal_currentAmount = the currentAmount,
                   newGoal_targetDate = the targetDate\<rparr>)"

subsection \<open>POST (create)\<close>

text \<open>
  \<open>validate_income\<close> and its siblings are the \<open>parse\<close> calls of the create routes on
  the object each route builds from the body: the caller's user id replaces any
  \<open>userId\<close>; the expense route replaces \<open>date\<close> by \<open>new Date(req.body.date)\<close> and
  deletes \<open>notes\<close>; the liability and goal routes pass the amounts through \<open>Number\<close>,
  and the goal route replaces \<open>targetDate\<close> by \<open>new Date(req.body.targetDate)\<close>.
\<close>

definition validate_income :: "int \<Rightarrow> IncomeJson \<Rightarrow> zod_issue list + NewIncome" where
  "validate_income userId reqBody =
     parse_incomeSchema userId (incomeJson_source reqBody) (incomeJson_category reqBody)
       (incomeJson_amount reqBody) (incomeJson_type reqBody) (incomeJson_frequency reqBody)
       (incomeJson_notes reqBody)"

definition validate_expense :: "host \<Rightarrow> int \<Rightarrow> ExpenseJson \<Rightarrow> zod_issue list + NewExpense" where
  "validate_expense h userId reqBody =
     parse_expenseSchema userId (expenseJson_category reqBody) (expenseJson_amount reqBody)
       (expenseJson_description reqBody) (Some (new_Date h (expenseJson_date reqBody))) None"

definition validate_asset :: "int \<Rightarrow> AssetJson \<Rightarrow> zod_issue list + NewAsset" where
  "validate_asset userId reqBody =
     parse_assetSchema userId (assetJson_name reqBody) (assetJson_category reqBody)
       (assetJson_value reqBody) (assetJson_incomeGenerated reqBody) (assetJson_notes reqBody)"

definition validate_liability :: "int \<Rightarrow> LiabilityJson \<Rightarrow> zod_issue list + NewLiability" where
  "validate_liability userId reqBody =
     parse_liabilitySchema userId (liabilityJson_description reqBody)
       (liabilityJson_type reqBody) (Some (Number_of (liabilityJson_amount reqBody)))
       (Some (Number_of (liabilityJson_interestRate reqBody))) (liabilityJson_notes reqBody)"

definition validate_goal :: "host \<Rightarrow> int \<Rightarrow> GoalJson \<Rightarrow> zod_issue list + NewGoal" where
  "validate_goal h userId reqBody =
     parse_goalSchema userId (goalJson_description reqBody)
       (Some (Number_of (goalJson_targetAmount reqBody)))
       (Some (Number_of (goalJson_currentAmount reqBody)))
       (Some (new_Date h (goalJson_targetDate reqBody)))"

text \<open>
  The arguments \<open>id'\<close> and \<open>now\<close> are what \<open>uuidv4()\<close> and \<open>new Date()\<close> give inside
  the repository's create. A \<open>ZodError\<close> is answered with 400 and its issues, any other
  exception with 500.
\<close>

definition post_incomes ::
  "string \<Rightarrow> int \<Rightarrow> IncomeJson \<Rightarrow> int \<Rightarrow> db \<Rightarrow> Income response \<times> db" where
  "post_incomes id' now reqBody userId d =
     (case validate_income userId reqBody of
        Inl errors \<Rightarrow> (\<lparr>status = 400, body = IssuesBody errors\<rparr>, d)
      | Inr validatedData \<Rightarrow>
          (case createIncome id' now validatedData d of
             Inl e \<Rightarrow> (\<lparr>status = 500, body = ErrorBody ''Failed to create income''\<rparr>, d)
           | Inr (income, d') \<Rightarrow> (\<lparr>status = 200, body = Json income\<rparr>, d')))"

definition post_expenses ::
  "host \<Rightarrow> string \<Rightarrow> int \<Rightarrow> ExpenseJson \<Rightarrow> int \<Rightarrow> db \<Rightarrow> Expense response \<times> db" where
  "post_expenses h id' now reqBody userId d =
     (case validate_expense h userId reqBody of
        Inl errors \<Rightarrow> (\<lparr>status = 400, body = IssuesBody errors\<rparr>, d)
      | Inr validatedData \<Rightarrow>
          (case createExpense id' now validatedData d of
             Inl e \<Rightarrow> (\<lparr>status = 500, body = ErrorBody ''Failed to create expense''\<rparr>, d)
           | Inr (expense, d') \<Rightarrow> (\<lparr>status = 200, body = Json expense\<rparr>, d')))"

definition post_assets ::
  "string \<Rightarrow> int \<Rightarrow> AssetJson \<Rightarrow> int \<Rightarrow> db \<Rightarrow> Asset response \<times> db" where
  "post_assets id' now reqBody userId d =
     (case validate_asset userId reqBody of
        Inl errors \<Rightarrow> (\<lparr>status = 400, body = IssuesBody errors\<rparr>, d)
      | Inr validatedData \<Rightarrow>
          (case createAsset id' now validatedData d of
             Inl e \<Rightarrow> (\<lparr>status = 500, body = ErrorBody ''Failed to create asset''\<rparr>, d)
           | Inr (asset, d') \<Rightarrow> (\<lparr>status = 200, body = Json asset\<rparr>, d')))"

text \<open>The liability route first answers 401 when the user id is falsy (\<open>!req.user?.id\<close>).\<close>

definition post_liabilities ::
  "string \<Rightarrow> int \<Rightarrow> LiabilityJson \<Rightarrow> int \<Rightarrow> db \<Rightarrow> Liability response \<times> db" where
  "post_liabilities id' now reqBody userId d =
     (if userId = 0 then (\<lparr>status = 401, body = ErrorBody ''User not authenticated''\<rparr>, d)
      else case validate_liability userId reqBody of
             Inl errors \<Rightarrow> (\<lparr>status = 400, body = IssuesBody errors\<rparr>, d)
           | Inr validatedData \<Rightarrow>
               (case createLiability id' now validatedData d of
                  Inl e \<Rightarrow> (\<lparr>status = 500, body = ErrorBody ''Failed to create liability''\<rparr>, d)
                | Inr (liability, d') \<Rightarrow> (\<lparr>status = 200, body = Json liability\<rparr>, d')))"

definition post_goals ::
  "host \<Rightarrow> string \<Rightarrow> int \<Rightarrow> GoalJson \<Rightarrow> int \<Rightarrow> db \<Rightarrow> Goal response \<times> db" where
  "post_goals h id' now reqBody userId d =
     (case validate_goal h userId reqBody of
        Inl errors \<Rightarrow> (\<lparr>status = 400, body = IssuesBody errors\<rparr>, d)
      | Inr validatedData \<Rightarrow>
          (case createGoal id' now validatedData d of
             Inl e \<Rightarrow> (\<lparr>status = 500, body = ErrorBody ''Failed to create goal''\<rparr>, d)
           | Inr (goal, d') \<Rightarrow> (\<lparr>status = 200, body = Json goal\<rparr>, d')))"

subsection \<open>PUT (bulk sync)\<close>






















subsection \<open>Elements that a bulk sync processes without an exception\<close>







section \<open>The specification's reading of the dispatcher\<close>

text \<open>
  The specification describes the dispatcher as an ordered list of pairs of a keyword
  predicate and a template, evaluated in priority order on the lower-cased query and
  falling through to the general overview. The definitions below follow those words;
  they are compared with \<open>generateFinancialAdvice\<close> further down.
\<close>

datatype template =
  ExpenseReduction | AssetGrowth | DebtReduction | GoalAchievement | GeneralOverview

definition contains_text :: "string \<Rightarrow> string \<Rightarrow> bool" where
  "contains_text s k = (\<exists>ps ss. s = ps @ k @ ss)"

definition matches_expense_reduction :: "string \<Rightarrow> bool" where
  "matches_expense_reduction q =
     (includes_str q ''reduce'' \<and> (includes_str q ''expense'' \<or> includes_str q ''spending''))"

definition matches_asset_growth :: "string \<Rightarrow> bool" where
  "matches_asset_growth q = (includes_str q ''increase'' \<and> includes_str q ''asset'')"

definition matches_debt_reduction :: "string \<Rightarrow> bool" where
  "matches_debt_reduction q =
     ((includes_str q ''reduce'' \<or> includes_str q ''pay off'') \<and> includes_str q ''liability'')"

definition matches_goal_achievement :: "string \<Rightarrow> bool" where
  "matches_goal_achievement q = (includes_str q ''goal'' \<or> includes_str q ''reach'')"

definition spec_priority_list :: "((string \<Rightarrow> bool) \<times> template) list" where
  "spec_priority_list =
     [(matches_expense_reduction, ExpenseReduction),
      (matches_asset_growth, AssetGrowth),
      (matches_debt_reduction, DebtReduction),
      (matches_goal_achievement, GoalAchievement)]"

fun spec_first_match :: "((string \<Rightarrow> bool) \<times> template) list \<Rightarrow> string \<Rightarrow> template" where
  "spec_first_match [] q = GeneralOverview"
| "spec_first_match ((p, t) # rest) q = (if p q then t else spec_first_match rest q)"

definition spec_dispatch :: "string \<Rightarrow> template" where
  "spec_dispatch query = spec_first_match spec_priority_list (toLowerCase query)"

definition spec_render :: "host \<Rightarrow> int \<Rightarrow> AIAssistantRequest \<Rightarrow> template \<Rightarrow> string" where
  "spec_render h today request t =
     (let userData = request_userData request; summary = userData_summary userData
      in case t of
           ExpenseReduction \<Rightarrow>
             generateExpenseReductionAdvice h (userData_expenses userData)
               (summary_totalExpenses summary) (summary_largestExpenseCategory summary)
               (summary_largestExpenseAmount summary)
         | AssetGrowth \<Rightarrow>
             generateAssetIncreaseAdvice (userData_assets userData)
               (summary_netWorth summary) (summary_passiveIncome summary)
         | DebtReduction \<Rightarrow>
             generateLiabilityReductionAdvice h (userData_liabilities userData)
               (summary_cashFlow summary)
         | GoalAchievement \<Rightarrow>
             generateGoalAchievementAdvice h today (userData_goals userData)
               (summary_cashFlow summary) (summary_netWorth summary)
         | GeneralOverview \<Rightarrow>
             generateGeneralFinancialAdvice h (userData_incomes userData)
               (userData_expenses userData) (userData_assets userData)
               (userData_liabilities userData) (userData_goals userData)
               (summary_cashFlow summary) (summary_passiveIncome summary)
               (summary_netWorth summary))"

section \<open>Sample values\<close>

text \<open>A host and a request on which the definitions are evaluated below.\<close>

definition sample_host :: host where
  "sample_host =
     \<lparr>Number_toString = (\<lambda>q. ''1e+21''),
      Date_getFullYear = (\<lambda>t. 1970 + t div 31556952000),
      Date_getMonth = (\<lambda>t. (t mod 31556952000) div 2629746000),
      Date_parse = (\<lambda>s. if s = ''2024-01-01'' then ValidDate 1704067200000
                         else if s = ''2024-01-02'' then ValidDate 1704153600000
                         else InvalidDate),
      bcrypt_compare = (\<lambda>password hash. hash = ''hash of '' @ password),
      jwt_sign = (\<lambda>uid username now. ''token for '' @ username)\<rparr>"

definition sample_summary :: Summary where
  "sample_summary =
     \<lparr>summary_totalIncome = Fin 5000, summary_totalExpenses = Fin 0,
      summary_cashFlow = Fin 5000, summary_perDay = Fin 0, summary_passiveIncome = Fin 0,
      summary_netWorth = Fin 0, summary_netWorthChange = Fin 0,
      summary_largestExpenseCategory = ''Food'', summary_largestExpenseAmount = Fin 100\<rparr>"

definition sample_request :: "string \<Rightarrow> AIAssistantRequest" where
  "sample_request q =
     \<lparr>request_query = q,
      request_userData =
        \<lparr>userData_incomes = [], userData_expenses = [], userData_assets = [],
         userData_liabilities = [], userData_goals = [], userData_summary = sample_summary\<rparr>\<rparr>"

text \<open>An empty database, and one record of each kind for user 1.\<close>

definition empty_db :: db where
  "empty_db =
     \<lparr>users_tbl = [], incomes_tbl = [], expenses_tbl = [], assets_tbl = [],
      liabilities_tbl = [], goals_tbl = []\<rparr>"

definition sample_newIncome :: NewIncome where
  "sample_newIncome =
     \<lparr>newIncome_userId = 1, newIncome_source = ''Salary'', newIncome_category = ''Job'',
      newIncome_amount = Fin 5000, newIncome_type = ''active'',
      newIncome_frequency = ''monthly'', newIncome_notes = None\<rparr>"

definition sample_incomes_row :: incomes_row where
  "sample_incomes_row =
     \<lparr>incomes_id = ''i1'', incomes_userId = 1, incomes_source = ''Salary'',
      incomes_category = ''Job'', incomes_amount = DecimalText (Fin 5000),
      incomes_type = ''active'', incomes_frequency = ''monthly'', incomes_notes = Null,
      incomes_createdAt = 1000\<rparr>"


definition sample_expenses_row :: expenses_row where
  "sample_expenses_row =
     \<lparr>expenses_id = ''e1'', expenses_userId = 1, expenses_category = ''Food'',
      expenses_amount = DecimalText (Fin 200), expenses_description = ''Groceries'',
      expenses_date = 1704067200000, expenses_notes = Null, expenses_createdAt = 1000\<rparr>"


definition sample_assets_row :: assets_row where
  "sample_assets_row =
     \<lparr>assets_id = ''a1'', assets_userId = 1, assets_name = ''Flat'',
      assets_category = ''Real Estate'', assets_value = DecimalText (Fin 100000),
      assets_incomeGenerated = DecimalText (Fin 500), assets_notes = Null,
      assets_createdAt = 1000\<rparr>"


definition sample_liabilities_row :: liabilities_row where
  "sample_liabilities_row =
     \<lparr>liabilities_id = ''l1'', liabilities_userId = 1, liabilities_description = ''Car loan'',
      liabilities_type = ''Loan'', liabilities_amount = DecimalText (Fin 9000),
      liabilities_interestRate = DecimalText (Fin 7), liabilities_notes = Null,
      liabilities_createdAt = 1000\<rparr>"


definition sample_goals_row :: goals_row where
  "sample_goals_row =
     \<lparr>goals_id = ''g1'', goals_userId = 1, goals_description = ''Holiday'',
      goals_targetAmount = DecimalText (Fin 3000), goals_currentAmount = DecimalText (Fin 500),
      goals_targetDate = 19723, goals_createdAt = 1000\<rparr>"

text \<open>Patches that set one amount and omit every other field, \<open>notes\<close> included.\<close>

definition sample_incomePatch :: IncomePatch where
  "sample_incomePatch =
     \<lparr>incomePatch_userId = None, incomePatch_source = None, incomePatch_category = None,
      incomePatch_amount = Some (Fin 6000), incomePatch_type = None,
      incomePatch_frequency = None, incomePatch_notes = None\<rparr>"

definition sample_expensePatch :: ExpensePatch where
  "sample_expensePatch =
     \<lparr>expensePatch_userId = None, expensePatch_category = None,
      expensePatch_amount = Some (Fin 250), expensePatch_description = None,
      expensePatch_date = None, expensePatch_notes = None\<rparr>"

definition sample_assetPatch :: AssetPatch where
  "sample_assetPatch =
     \<lparr>assetPatch_userId = None, assetPatch_name = None, assetPatch_category = None,
      assetPatch_value = Some (Fin 110000), assetPatch_incomeGenerated = None,
      assetPatch_notes = None\<rparr>"

definition sample_liabilityPatch :: LiabilityPatch where
  "sample_liabilityPatch =
     \<lparr>liabilityPatch_userId = None, liabilityPatch_description = None,
      liabilityPatch_type = None, liabilityPatch_amount = Some (Fin 8000),
      liabilityPatch_interestRate = None, liabilityPatch_notes = None\<rparr>"

text \<open>A user with a password hash, and a database holding that user and one goal.\<close>

definition sample_users_row :: users_row where
  "sample_users_row =
     \<lparr>users_id = 1, users_username = ''alice'', users_password = Value ''hash of pw123456'',
      users_email = ''a@x.com'', users_googleId = Null, users_googleName = Null,
      users_googlePicture = Null, users_createdAt = 0, users_lastLogin = Null\<rparr>"

definition sample_db :: db where
  "sample_db = empty_db\<lparr>users_tbl := [sample_users_row], goals_tbl := [sample_goals_row]\<rparr>"

text \<open>Request bodies without the amount: each is rejected by its schema.\<close>

definition bad_incomeJson :: IncomeJson where
  "bad_incomeJson =
     \<lparr>incomeJson_id = None, incomeJson_source = Some ''Salary'',
      incomeJson_category = Some ''Job'', incomeJson_amount = None,
      incomeJson_type = Some ''active'', incomeJson_frequency = Some ''monthly'',
      incomeJson_notes = None\<rparr>"

definition bad_expenseJson :: ExpenseJson where
  "bad_expenseJson =
     \<lparr>expenseJson_id = None, expenseJson_category = Some ''Fun'', expenseJson_amount = None,
      expenseJson_description = Some ''Movie'', expenseJson_date = Some ''2024-01-02'',
      expenseJson_notes = None\<rparr>"

definition bad_assetJson :: AssetJson where
  "bad_assetJson =
     \<lparr>assetJson_id = None, assetJson_name = Some ''Flat'',
      assetJson_category = Some ''Real Estate'', assetJson_value = None,
      assetJson_incomeGenerated = Some (Fin 500), assetJson_notes = None\<rparr>"

definition bad_liabilityJson :: LiabilityJson where
  "bad_liabilityJson =
     \<lparr>liabilityJson_id = None, liabilityJson_description = Some ''Car loan'',
      liabilityJson_type = Some ''Loan'', liabilityJson_amount = None,
      liabilityJson_interestRate = Some (Fin 7), liabilityJson_notes = None\<rparr>"

definition bad_goalJson :: GoalJson where
  "bad_goalJson =
     \<lparr>goalJson_id = None, goalJson_description = Some ''Holiday'',
      goalJson_targetAmount = None, goalJson_currentAmount = Some (Fin 500),
      goalJson_targetDate = Some ''2024-01-01''\<rparr>"








section \<open>Properties of the advice generator\<close>

subsection \<open>Keyword containment\<close>

lemma startsWith_iff: "startsWith s k \<longleftrightarrow> (\<exists>ss. s = k @ ss)"
  by (induction s k rule: startsWith.induct) auto

text \<open>\<open>includes_str\<close> computes containment as a contiguous piece of the text.\<close>

lemma includes_str_iff: "includes_str s k \<longleftrightarrow> contains_text s k"
proof (induction s)
  case Nil
  show ?case by (auto simp: contains_text_def)
next
  case (Cons c s)
  show ?case
  proof
    assume "includes_str (c # s) k"
    then consider "startsWith (c # s) k" | "includes_str s k" by auto
    then show "contains_text (c # s) k"
    proof cases
      case 1
      then obtain ss where "c # s = k @ ss" by (auto simp: startsWith_iff)
      then have "c # s = [] @ k @ ss" by simp
      then show ?thesis unfolding contains_text_def by blast
    next
      case 2
      then obtain ps ss where "s = ps @ k @ ss" using Cons by (auto simp: contains_text_def)
      then have "c # s = (c # ps) @ k @ ss" by simp
      then show ?thesis unfolding contains_text_def by blast
    qed
  next
    assume "contains_text (c # s) k"
    then obtain ps ss where eq: "c # s = ps @ k @ ss" by (auto simp: contains_text_def)
    show "includes_str (c # s) k"
    proof (cases ps)
      case Nil
      then have "startsWith (c # s) k" using eq by (auto simp: startsWith_iff)
      then show ?thesis by simp
    next
      case (Cons p ps')
      then have "s = ps' @ k @ ss" using eq by simp
      then have "contains_text s k" unfolding contains_text_def by blast
      then show ?thesis using Cons.IH by simp
    qed
  qed
qed

lemma contains_text_map: "contains_text s k \<Longrightarrow> contains_text (map f s) (map f k)"
  unfolding contains_text_def by (metis map_append)

text \<open>A keyword written in lower case in the query is still there after lower-casing.\<close>

lemma includes_str_toLowerCase:
  "contains_text q k \<Longrightarrow> toLowerCase k = k \<Longrightarrow> includes_str (toLowerCase q) k"
  using contains_text_map [of q k toLowerCase_char]
  by (simp add: includes_str_iff toLowerCase_def)

lemma toLowerCase_reduce: "toLowerCase ''reduce'' = ''reduce''"
  by code_simp

lemma toLowerCase_expense: "toLowerCase ''expense'' = ''expense''"
  by code_simp

subsection \<open>Dispatch\<close>

lemma spec_dispatch_cases:
  "spec_dispatch query =
     (if matches_expense_reduction (toLowerCase query) then ExpenseReduction
      else if matches_asset_growth (toLowerCase query) then AssetGrowth
      else if matches_debt_reduction (toLowerCase query) then DebtReduction
      else if matches_goal_achievement (toLowerCase query) then GoalAchievement
      else GeneralOverview)"
  by (simp add: spec_dispatch_def spec_priority_list_def)

lemma generateFinancialAdvice_refines:
  "generateFinancialAdvice h today request =
     spec_render h today request (spec_dispatch (request_query request))"
  unfolding generateFinancialAdvice_def spec_render_def spec_dispatch_cases
    matches_expense_reduction_def matches_asset_growth_def matches_debt_reduction_def
    matches_goal_achievement_def Let_def
  by (auto simp del: includes_str.simps)

lemma reduce_expense_first:
  assumes "contains_text query ''reduce''" and "contains_text query ''expense''"
  shows "spec_dispatch query = ExpenseReduction"
proof -
  have "includes_str (toLowerCase query) ''reduce''"
    using assms(1) toLowerCase_reduce by (rule includes_str_toLowerCase)
  moreover have "includes_str (toLowerCase query) ''expense''"
    using assms(2) toLowerCase_expense by (rule includes_str_toLowerCase)
  ultimately have "matches_expense_reduction (toLowerCase query)"
    unfolding matches_expense_reduction_def by blast
  then show ?thesis by (simp add: spec_dispatch_cases)
qed

text \<open>
  C4. The advice generator dispatches on the lower-cased query in the fixed priority
  order expense reduction, asset growth, debt reduction, goal achievement, general
  overview: it returns the template that the specification's ordered list selects. A
  query containing "reduce" and "expense" selects the expense-reduction template
  whatever else it contains, and a query matching none of the four keyword sets gets
  the general overview.
\<close>

theorem advice_dispatch_priority:
  "generateFinancialAdvice h today request =
     spec_render h today request (spec_dispatch (request_query request))
   \<and> spec_dispatch (request_query request) =
       (if matches_expense_reduction (toLowerCase (request_query request))
        then ExpenseReduction
        else if matches_asset_growth (toLowerCase (request_query request))
        then AssetGrowth
        else if matches_debt_reduction (toLowerCase (request_query request))
        then DebtReduction
        else if matches_goal_achievement (toLowerCase (request_query request))
        then GoalAchievement
        else GeneralOverview)
   \<and> (contains_text (request_query request) ''reduce''
        \<and> contains_text (request_query request) ''expense''
      \<longrightarrow> generateFinancialAdvice h today request =
            spec_render h today request ExpenseReduction)
   \<and> (\<not> matches_expense_reduction (toLowerCase (request_query request))
        \<and> \<not> matches_asset_growth (toLowerCase (request_query request))
        \<and> \<not> matches_debt_reduction (toLowerCase (request_query request))
        \<and> \<not> matches_goal_achievement (toLowerCase (request_query request))
      \<longrightarrow> generateFinancialAdvice h today request =
            spec_render h today request GeneralOverview)"
proof (intro conjI impI)
  show "generateFinancialAdvice h today request =
          spec_render h today request (spec_dispatch (request_query request))"
    by (rule generateFinancialAdvice_refines)
next
  show "spec_dispatch (request_query request) =
       (if matches_expense_reduction (toLowerCase (request_query request))
        then ExpenseReduction
        else if matches_asset_growth (toLowerCase (request_query request))
        then AssetGrowth
        else if matches_debt_reduction (toLowerCase (request_query request))
        then DebtReduction
        else if matches_goal_achievement (toLowerCase (request_query request))
        then GoalAchievement
        else GeneralOverview)"
    by (rule spec_dispatch_cases)
next
  assume "contains_text (request_query request) ''reduce''
            \<and> contains_text (request_query request) ''expense''"
  then have "spec_dispatch (request_query request) = ExpenseReduction"
    by (simp add: reduce_expense_first)
  then show "generateFinancialAdvice h today request =
               spec_render h today request ExpenseReduction"
    by (simp add: generateFinancialAdvice_refines)
next
  assume "\<not> matches_expense_reduction (toLowerCase (request_query request))
        \<and> \<not> matches_asset_growth (toLowerCase (request_query request))
        \<and> \<not> matches_debt_reduction (toLowerCase (request_query request))
        \<and> \<not> matches_goal_achievement (toLowerCase (request_query request))"
  then have "spec_dispatch (request_query request) = GeneralOverview"
    by (simp add: spec_dispatch_cases)
  then show "generateFinancialAdvice h today request =
               spec_render h today request GeneralOverview"
    by (simp add: generateFinancialAdvice_refines)
qed

lemma sample_query_contains:
  "contains_text ''How can I reduce my expenses and reach my goal?'' ''reduce''
   \<and> contains_text ''How can I reduce my expenses and reach my goal?'' ''expense''"
  unfolding includes_str_iff [symmetric] by code_simp

lemma sample_query_no_match:
  "\<not> matches_expense_reduction (toLowerCase ''Hello'')
   \<and> \<not> matches_asset_growth (toLowerCase ''Hello'')
   \<and> \<not> matches_debt_reduction (toLowerCase ''Hello'')
   \<and> \<not> matches_goal_achievement (toLowerCase ''Hello'')"
  by code_simp

theorem advice_dispatch_priority_witness:
  "(contains_text ''How can I reduce my expenses and reach my goal?'' ''reduce''
    \<and> contains_text ''How can I reduce my expenses and reach my goal?'' ''expense'')
   \<and> generateFinancialAdvice sample_host 0
        (sample_request ''How can I reduce my expenses and reach my goal?'') =
      spec_render sample_host 0
        (sample_request ''How can I reduce my expenses and reach my goal?'') ExpenseReduction
   \<and> (\<not> matches_expense_reduction (toLowerCase ''Hello'')
      \<and> \<not> matches_asset_growth (toLowerCase ''Hello'')
      \<and> \<not> matches_debt_reduction (toLowerCase ''Hello'')
      \<and> \<not> matches_goal_achievement (toLowerCase ''Hello''))
   \<and> generateFinancialAdvice sample_host 0 (sample_request ''Hello'') =
      spec_render sample_host 0 (sample_request ''Hello'') GeneralOverview"
proof -
  have q1: "request_query (sample_request ''How can I reduce my expenses and reach my goal?'')
              = ''How can I reduce my expenses and reach my goal?''"
    by (simp add: sample_request_def)
  have q2: "request_query (sample_request ''Hello'') = ''Hello''"
    by (simp add: sample_request_def)
  note t1 = advice_dispatch_priority
              [of sample_host 0 "sample_request ''How can I reduce my expenses and reach my goal?''",
               unfolded q1]
  note t2 = advice_dispatch_priority [of sample_host 0 "sample_request ''Hello''", unfolded q2]
  from t1 sample_query_contains
  have r1: "generateFinancialAdvice sample_host 0
              (sample_request ''How can I reduce my expenses and reach my goal?'') =
            spec_render sample_host 0
              (sample_request ''How can I reduce my expenses and reach my goal?'')
              ExpenseReduction"
    by blast
  from t2 sample_query_no_match
  have r2: "generateFinancialAdvice sample_host 0 (sample_request ''Hello'') =
            spec_render sample_host 0 (sample_request ''Hello'') GeneralOverview"
    by blast
  from r1 r2 sample_query_contains sample_query_no_match show ?thesis by blast
qed

subsection \<open>Division by a zero total\<close>






section \<open>Properties of the repository\<close>

subsection \<open>The query builder\<close>

lemma insert_returning_Inr:
  "insert_returning pk r rows = Inr (res, rows') \<Longrightarrow>
     res = [r] \<and> rows' = rows @ [r] \<and> pk r \<notin> set (map pk rows)"
  by (auto simp: insert_returning_def split: if_splits)





lemma distinct_update_where:
  "(\<And>r. pk (f r) = pk r) \<Longrightarrow> distinct (map pk (update_where p f rows)) = distinct (map pk rows)"
proof -
  assume "\<And>r. pk (f r) = pk r"
  then have "map pk (update_where p f rows) = map pk rows"
    by (induction rows) (auto simp: update_where_def)
  then show ?thesis by simp
qed

lemma distinct_delete_where:
  "distinct (map pk rows) \<Longrightarrow> distinct (map pk (delete_where p rows))"
  by (simp add: delete_where_def distinct_map_filter)

subsection \<open>Reading one record\<close>

lemma createIncome_Inr:
  assumes "createIncome i now inp d = Inr (obj, d')"
  shows "\<exists>row. incomes_tbl d' = incomes_tbl d @ [row] \<and> obj = mapIncome row
           \<and> incomes_id row = i \<and> incomes_userId row = newIncome_userId inp
           \<and> i \<notin> set (map incomes_id (incomes_tbl d))"
  using assms unfolding createIncome_def Let_def
  by (auto split: sum.splits list.splits dest!: insert_returning_Inr)






lemma createIncome_distinct:
  assumes "createIncome i now inp d = Inr (obj, d')" and "distinct (map incomes_id (incomes_tbl d))"
  shows "distinct (map incomes_id (incomes_tbl d'))"
  using createIncome_Inr [OF assms(1)] assms(2) by auto

lemma deleteIncome_distinct:
  "distinct (map incomes_id (incomes_tbl d)) \<Longrightarrow> distinct (map incomes_id (incomes_tbl (deleteIncome i u d)))"
  by (simp add: deleteIncome_def distinct_delete_where)

lemma updateIncome_distinct:
  "distinct (map incomes_id (incomes_tbl (updateIncome i p u d))) = distinct (map incomes_id (incomes_tbl d))"
  by (simp add: updateIncome_def Let_def distinct_update_where)

lemma createExpense_Inr:
  assumes "createExpense i now inp d = Inr (obj, d')"
  shows "\<exists>row. expenses_tbl d' = expenses_tbl d @ [row] \<and> obj = mapExpense row
           \<and> expenses_id row = i \<and> expenses_userId row = newExpense_userId inp
           \<and> i \<notin> set (map expenses_id (expenses_tbl d))"
  using assms unfolding createExpense_def Let_def
  by (auto split: sum.splits list.splits dest!: insert_returning_Inr)






lemma createExpense_distinct:
  assumes "createExpense i now inp d = Inr (obj, d')" and "distinct (map expenses_id (expenses_tbl d))"
  shows "distinct (map expenses_id (expenses_tbl d'))"
  using createExpense_Inr [OF assms(1)] assms(2) by auto

lemma deleteExpense_distinct:
  "distinct (map expenses_id (expenses_tbl d)) \<Longrightarrow> distinct (map expenses_id (expenses_tbl (deleteExpense i u d)))"
  by (simp add: deleteExpense_def distinct_delete_where)

lemma updateExpense_distinct:
  "updateExpense i p u d = Inr d' \<Longrightarrow>
     distinct (map expenses_id (expenses_tbl d')) = distinct (map expenses_id (expenses_tbl d))"
  by (auto simp: updateExpense_def Let_def distinct_update_where split: sum.splits option.splits)

lemma createAsset_Inr:
  assumes "createAsset i now inp d = Inr (obj, d')"
  shows "\<exists>row. assets_tbl d' = assets_tbl d @ [row] \<and> obj = mapAsset row
           \<and> assets_id row = i \<and> assets_userId row = newAsset_userId inp
           \<and> i \<notin> set (map assets_id (assets_tbl d))"
  using assms unfolding createAsset_def Let_def
  by (auto split: sum.splits list.splits dest!: insert_returning_Inr)






lemma createAsset_distinct:
  assumes "createAsset i now inp d = Inr (obj, d')" and "distinct (map assets_id (assets_tbl d))"
  shows "distinct (map assets_id (assets_tbl d'))"
  using createAsset_Inr [OF assms(1)] assms(2) by auto

lemma deleteAsset_distinct:
  "distinct (map assets_id (assets_tbl d)) \<Longrightarrow> distinct (map assets_id (assets_tbl (deleteAsset i u d)))"
  by (simp add: deleteAsset_def distinct_delete_where)

lemma updateAsset_distinct:
  "distinct (map assets_id (assets_tbl (updateAsset i p u d))) = distinct (map assets_id (assets_tbl d))"
  by (simp add: updateAsset_def Let_def distinct_update_where)

lemma createLiability_Inr:
  assumes "createLiability i now inp d = Inr (obj, d')"
  shows "\<exists>row. liabilities_tbl d' = liabilities_tbl d @ [row] \<and> obj = mapLiability row
           \<and> liabilities_id row = i \<and> liabilities_userId row = newLiability_userId inp
           \<and> i \<notin> set (map liabilities_id (liabilities_tbl d))"
  using assms unfolding createLiability_def Let_def
  by (auto split: sum.splits list.splits dest!: insert_returning_Inr)






lemma createLiability_distinct:
  assumes "createLiability i now inp d = Inr (obj, d')" and "distinct (map liabilities_id (liabilities_tbl d))"
  shows "distinct (map liabilities_id (liabilities_tbl d'))"
  using createLiability_Inr [OF assms(1)] assms(2) by auto

lemma deleteLiability_distinct:
  "distinct (map liabilities_id (liabilities_tbl d)) \<Longrightarrow> distinct (map liabilities_id (liabilities_tbl (deleteLiability i u d)))"
  by (simp add: deleteLiability_def distinct_delete_where)

lemma updateLiability_distinct:
  "distinct (map liabilities_id (liabilities_tbl (updateLiability i p u d))) = distinct (map liabilities_id (liabilities_tbl d))"
  by (simp add: updateLiability_def Let_def distinct_update_where)

lemma createGoal_Inr:
  assumes "createGoal i now inp d = Inr (obj, d')"
  shows "\<exists>row. goals_tbl d' = goals_tbl d @ [row] \<and> obj = mapGoal row
           \<and> goals_id row = i \<and> goals_userId row = newGoal_userId inp
           \<and> i \<notin> set (map goals_id (goals_tbl d))"
  using assms unfolding createGoal_def Let_def
  by (auto split: sum.splits list.splits dest!: insert_returning_Inr)






lemma createGoal_distinct:
  assumes "createGoal i now inp d = Inr (obj, d')" and "distinct (map goals_id (goals_tbl d))"
  shows "distinct (map goals_id (goals_tbl d'))"
  using createGoal_Inr [OF assms(1)] assms(2) by auto

lemma deleteGoal_distinct:
  "distinct (map goals_id (goals_tbl d)) \<Longrightarrow> distinct (map goals_id (goals_tbl (deleteGoal i u d)))"
  by (simp add: deleteGoal_def distinct_delete_where)

lemma updateGoal_distinct:
  "updateGoal i p u d = Inr d' \<Longrightarrow>
     distinct (map goals_id (goals_tbl d')) = distinct (map goals_id (goals_tbl d))"
  by (auto simp: updateGoal_def Let_def distinct_update_where split: sum.splits option.splits)



subsection \<open>Notes on read\<close>

lemma or_undefined_None_iff: "or_undefined x = None \<longleftrightarrow> x = Null"
  by (cases x) simp_all

lemma income_notes_read:
  "(map income_notes (getAllIncomes u d) =
        map (\<lambda>r. or_undefined (incomes_notes r)) (filter (\<lambda>r. incomes_userId r = u) (incomes_tbl d))
      \<and> map_option income_notes (getIncome i u d) =
        (case filter (\<lambda>r. incomes_id r = i \<and> incomes_userId r = u) (incomes_tbl d) of
           [] \<Rightarrow> None | r # _ \<Rightarrow> Some (or_undefined (incomes_notes r))))"
  by (simp add: getAllIncomes_def getIncome_def select_where_def mapIncome_def comp_def
      split: list.splits)

lemma expense_notes_read:
  "(map expense_notes (getAllExpenses u d) =
        map (\<lambda>r. or_undefined (expenses_notes r)) (filter (\<lambda>r. expenses_userId r = u) (expenses_tbl d))
      \<and> map_option expense_notes (getExpense i u d) =
        (case filter (\<lambda>r. expenses_id r = i \<and> expenses_userId r = u) (expenses_tbl d) of
           [] \<Rightarrow> None | r # _ \<Rightarrow> Some (or_undefined (expenses_notes r))))"
  by (simp add: getAllExpenses_def getExpense_def select_where_def mapExpense_def comp_def
      split: list.splits)

lemma asset_notes_read:
  "(map asset_notes (getAllAssets u d) =
        map (\<lambda>r. or_undefined (assets_notes r)) (filter (\<lambda>r. assets_userId r = u) (assets_tbl d))
      \<and> map_option asset_notes (getAsset i u d) =
        (case filter (\<lambda>r. assets_id r = i \<and> assets_userId r = u) (assets_tbl d) of
           [] \<Rightarrow> None | r # _ \<Rightarrow> Some (or_undefined (assets_notes r))))"
  by (simp add: getAllAssets_def getAsset_def select_where_def mapAsset_def comp_def
      split: list.splits)

lemma liability_notes_read:
  "(map liability_notes (getAllLiabilities u d) =
        map (\<lambda>r. or_undefined (liabilities_notes r)) (filter (\<lambda>r. liabilities_userId r = u) (liabilities_tbl d))
      \<and> map_option liability_notes (getLiability i u d) =
        (case filter (\<lambda>r. liabilities_id r = i \<and> liabilities_userId r = u) (liabilities_tbl d) of
           [] \<Rightarrow> None | r # _ \<Rightarrow> Some (or_undefined (liabilities_notes r))))"
  by (simp add: getAllLiabilities_def getLiability_def select_where_def mapLiability_def comp_def
      split: list.splits)

text \<open>
  C5, as amended. A stored \<open>notes\<close> that is absent (NULL) is returned as
  \<open>undefined\<close> by every repository read, list-all and get-one; any stored text, the
  empty string included, is returned as it is. Only NULL is normalised, so a reader
  tells a stored empty string from an absent note.
\<close>

theorem notes_null_normalised:
  "(map income_notes (getAllIncomes u d) =
        map (\<lambda>r. or_undefined (incomes_notes r)) (filter (\<lambda>r. incomes_userId r = u) (incomes_tbl d))
      \<and> map_option income_notes (getIncome i u d) =
        (case filter (\<lambda>r. incomes_id r = i \<and> incomes_userId r = u) (incomes_tbl d) of
           [] \<Rightarrow> None | r # _ \<Rightarrow> Some (or_undefined (incomes_notes r))))
   \<and> (map expense_notes (getAllExpenses u d) =
        map (\<lambda>r. or_undefined (expenses_notes r)) (filter (\<lambda>r. expenses_userId r = u) (expenses_tbl d))
      \<and> map_option expense_notes (getExpense i u d) =
        (case filter (\<lambda>r. expenses_id r = i \<and> expenses_userId r = u) (expenses_tbl d) of
           [] \<Rightarrow> None | r # _ \<Rightarrow> Some (or_undefined (expenses_notes r))))
   \<and> (map asset_notes (getAllAssets u d) =
        map (\<lambda>r. or_undefined (assets_notes r)) (filter (\<lambda>r. assets_userId r = u) (assets_tbl d))
      \<and> map_option asset_notes (getAsset i u d) =
        (case filter (\<lambda>r. assets_id r = i \<and> assets_userId r = u) (assets_tbl d) of
           [] \<Rightarrow> None | r # _ \<Rightarrow> Some (or_undefined (assets_notes r))))
   \<and> (map liability_notes (getAllLiabilities u d) =
        map (\<lambda>r. or_undefined (liabilities_notes r)) (filter (\<lambda>r. liabilities_userId r = u) (liabilities_tbl d))
      \<and> map_option liability_notes (getLiability i u d) =
        (case filter (\<lambda>r. liabilities_id r = i \<and> liabilities_userId r = u) (liabilities_tbl d) of
           [] \<Rightarrow> None | r # _ \<Rightarrow> Some (or_undefined (liabilities_notes r))))
   \<and> or_undefined (Null :: string nullable) = None
   \<and> or_undefined (Value '''') = Some ''''
   \<and> (or_undefined x = None \<longleftrightarrow> x = Null)"
  by (intro conjI income_notes_read [THEN conjunct1] income_notes_read [THEN conjunct2] expense_notes_read [THEN conjunct1] expense_notes_read [THEN conjunct2] asset_notes_read [THEN conjunct1] asset_notes_read [THEN conjunct2] liability_notes_read [THEN conjunct1] liability_notes_read [THEN conjunct2] or_undefined.simps
      or_undefined_None_iff)

text \<open>
  An income created with the empty string as its notes is read back, by get-one and by
  list-all, with the empty string, not with \<open>undefined\<close>; the same income created
  without notes is read back with \<open>undefined\<close>.
\<close>

theorem empty_notes_not_normalised:
  "createIncome ''i1'' 1000 (sample_newIncome\<lparr>newIncome_notes := Some ''''\<rparr>) empty_db =
     Inr (mapIncome (sample_incomes_row\<lparr>incomes_notes := Value ''''\<rparr>),
          empty_db\<lparr>incomes_tbl := [sample_incomes_row\<lparr>incomes_notes := Value ''''\<rparr>]\<rparr>)
   \<and> map_option income_notes
       (getIncome ''i1'' 1
          (empty_db\<lparr>incomes_tbl := [sample_incomes_row\<lparr>incomes_notes := Value ''''\<rparr>]\<rparr>)) =
     Some (Some '''')
   \<and> map income_notes
       (getAllIncomes 1
          (empty_db\<lparr>incomes_tbl := [sample_incomes_row\<lparr>incomes_notes := Value ''''\<rparr>]\<rparr>)) =
     [Some '''']
   \<and> map_option income_notes
       (getIncome ''i1'' 1 (empty_db\<lparr>incomes_tbl := [sample_incomes_row]\<rparr>)) =
     Some None"
  by (simp add: createIncome_def insert_returning_def getIncome_def getAllIncomes_def
      select_where_def mapIncome_def empty_db_def sample_newIncome_def sample_incomes_row_def
      toString_num_def Let_def)

subsection \<open>Partial updates\<close>

lemma update_where_nth:
  "k < length rows \<Longrightarrow>
     update_where p f rows ! k = (if p (rows ! k) then f (rows ! k) else rows ! k)"
  by (simp add: update_where_def)

lemma length_update_where: "length (update_where p f rows) = length rows"
  by (simp add: update_where_def)

lemma updateIncome_frame:
  "((incomePatch_notes incomePatch = None \<and> k < length (incomes_tbl d)
         \<and> incomes_id (incomes_tbl d ! k) = i \<and> incomes_userId (incomes_tbl d ! k) = u
        \<longrightarrow> incomes_notes (incomes_tbl (updateIncome i incomePatch u d) ! k) = Null
          \<and> (incomePatch_userId incomePatch = None \<longrightarrow> incomes_userId (incomes_tbl (updateIncome i incomePatch u d) ! k) = incomes_userId (incomes_tbl d ! k))
          \<and> (incomePatch_source incomePatch = None \<longrightarrow> incomes_source (incomes_tbl (updateIncome i incomePatch u d) ! k) = incomes_source (incomes_tbl d ! k))
          \<and> (incomePatch_category incomePatch = None \<longrightarrow> incomes_category (incomes_tbl (updateIncome i incomePatch u d) ! k) = incomes_category (incomes_tbl d ! k))
          \<and> (incomePatch_amount incomePatch = None \<longrightarrow> incomes_amount (incomes_tbl (updateIncome i incomePatch u d) ! k) = incomes_amount (incomes_tbl d ! k))
          \<and> (incomePatch_type incomePatch = None \<longrightarrow> incomes_type (incomes_tbl (updateIncome i incomePatch u d) ! k) = incomes_type (incomes_tbl d ! k))
          \<and> (incomePatch_frequency incomePatch = None \<longrightarrow> incomes_frequency (incomes_tbl (updateIncome i incomePatch u d) ! k) = incomes_frequency (incomes_tbl d ! k))
          \<and> incomes_id (incomes_tbl (updateIncome i incomePatch u d) ! k) = incomes_id (incomes_tbl d ! k)
          \<and> incomes_createdAt (incomes_tbl (updateIncome i incomePatch u d) ! k) = incomes_createdAt (incomes_tbl d ! k))
      \<and> (k < length (incomes_tbl d)
         \<and> \<not> (incomes_id (incomes_tbl d ! k) = i \<and> incomes_userId (incomes_tbl d ! k) = u)
        \<longrightarrow> incomes_tbl (updateIncome i incomePatch u d) ! k = incomes_tbl d ! k)
      \<and> length (incomes_tbl (updateIncome i incomePatch u d)) = length (incomes_tbl d))"
  by (auto simp: updateIncome_def Let_def update_where_nth length_update_where set_column_def)

lemma updateExpense_frame:
  "((updateExpense i expensePatch u d = Inr d' \<and> expensePatch_notes expensePatch = None \<and> k < length (expenses_tbl d)
         \<and> expenses_id (expenses_tbl d ! k) = i \<and> expenses_userId (expenses_tbl d ! k) = u
        \<longrightarrow> expenses_notes (expenses_tbl d' ! k) = Null
          \<and> (expensePatch_userId expensePatch = None \<longrightarrow> expenses_userId (expenses_tbl d' ! k) = expenses_userId (expenses_tbl d ! k))
          \<and> (expensePatch_category expensePatch = None \<longrightarrow> expenses_category (expenses_tbl d' ! k) = expenses_category (expenses_tbl d ! k))
          \<and> (expensePatch_amount expensePatch = None \<longrightarrow> expenses_amount (expenses_tbl d' ! k) = expenses_amount (expenses_tbl d ! k))
          \<and> (expensePatch_description expensePatch = None \<longrightarrow> expenses_description (expenses_tbl d' ! k) = expenses_description (expenses_tbl d ! k))
          \<and> (expensePatch_date expensePatch = None \<longrightarrow> expenses_date (expenses_tbl d' ! k) = expenses_date (expenses_tbl d ! k))
          \<and> expenses_id (expenses_tbl d' ! k) = expenses_id (expenses_tbl d ! k)
          \<and> expenses_createdAt (expenses_tbl d' ! k) = expenses_createdAt (expenses_tbl d ! k))
      \<and> (updateExpense i expensePatch u d = Inr d' \<and> k < length (expenses_tbl d)
         \<and> \<not> (expenses_id (expenses_tbl d ! k) = i \<and> expenses_userId (expenses_tbl d ! k) = u)
        \<longrightarrow> expenses_tbl d' ! k = expenses_tbl d ! k)
      \<and> (updateExpense i expensePatch u d = Inr d' \<longrightarrow> length (expenses_tbl d') = length (expenses_tbl d))
      \<and> (expensePatch_date expensePatch \<noteq> Some InvalidDate \<longrightarrow> (\<exists>db'. updateExpense i expensePatch u d = Inr db')))"
  by (auto simp: updateExpense_def Let_def update_where_nth length_update_where set_column_def toISOString_def split: sum.splits option.splits jsdate.splits)

lemma updateAsset_frame:
  "((assetPatch_notes assetPatch = None \<and> k < length (assets_tbl d)
         \<and> assets_id (assets_tbl d ! k) = i \<and> assets_userId (assets_tbl d ! k) = u
        \<longrightarrow> assets_notes (assets_tbl (updateAsset i assetPatch u d) ! k) = Null
          \<and> (assetPatch_userId assetPatch = None \<longrightarrow> assets_userId (assets_tbl (updateAsset i assetPatch u d) ! k) = assets_userId (assets_tbl d ! k))
          \<and> (assetPatch_name assetPatch = None \<longrightarrow> assets_name (assets_tbl (updateAsset i assetPatch u d) ! k) = assets_name (assets_tbl d ! k))
          \<and> (assetPatch_category assetPatch = None \<longrightarrow> assets_category (assets_tbl (updateAsset i assetPatch u d) ! k) = assets_category (assets_tbl d ! k))
          \<and> (assetPatch_value assetPatch = None \<longrightarrow> assets_value (assets_tbl (updateAsset i assetPatch u d) ! k) = assets_value (assets_tbl d ! k))
          \<and> (assetPatch_incomeGenerated assetPatch = None \<longrightarrow> assets_incomeGenerated (assets_tbl (updateAsset i assetPatch u d) ! k) = assets_incomeGenerated (assets_tbl d ! k))
          \<and> assets_id (assets_tbl (updateAsset i assetPatch u d) ! k) = assets_id (assets_tbl d ! k)
          \<and> assets_createdAt (assets_tbl (updateAsset i assetPatch u d) ! k) = assets_createdAt (assets_tbl d ! k))
      \<and> (k < length (assets_tbl d)
         \<and> \<not> (assets_id (assets_tbl d ! k) = i \<and> assets_userId (assets_tbl d ! k) = u)
        \<longrightarrow> assets_tbl (updateAsset i assetPatch u d) ! k = assets_tbl d ! k)
      \<and> length (assets_tbl (updateAsset i assetPatch u d)) = length (assets_tbl d))"
  by (auto simp: updateAsset_def Let_def update_where_nth length_update_where set_column_def)

lemma updateLiability_frame:
  "((liabilityPatch_notes liabilityPatch = None \<and> k < length (liabilities_tbl d)
         \<and> liabilities_id (liabilities_tbl d ! k) = i \<and> liabilities_userId (liabilities_tbl d ! k) = u
        \<longrightarrow> liabilities_notes (liabilities_tbl (updateLiability i liabilityPatch u d) ! k) = Null
          \<and> (liabilityPatch_userId liabilityPatch = None \<longrightarrow> liabilities_userId (liabilities_tbl (updateLiability i liabilityPatch u d) ! k) = liabilities_userId (liabilities_tbl d ! k))
          \<and> (liabilityPatch_description liabilityPatch = None \<longrightarrow> liabilities_description (liabilities_tbl (updateLiability i liabilityPatch u d) ! k) = liabilities_description (liabilities_tbl d ! k))
          \<and> (liabilityPatch_type liabilityPatch = None \<longrightarrow> liabilities_type (liabilities_tbl (updateLiability i liabilityPatch u d) ! k) = liabilities_type (liabilities_tbl d ! k))
          \<and> (liabilityPatch_amount liabilityPatch = None \<longrightarrow> liabilities_amount (liabilities_tbl (updateLiability i liabilityPatch u d) ! k) = liabilities_amount (liabilities_tbl d ! k))
          \<and> (liabilityPatch_interestRate liabilityPatch = None \<longrightarrow> liabilities_interestRate (liabilities_tbl (updateLiability i liabilityPatch u d) ! k) = liabilities_interestRate (liabilities_tbl d ! k))
          \<and> liabilities_id (liabilities_tbl (updateLiability i liabilityPatch u d) ! k) = liabilities_id (liabilities_tbl d ! k)
          \<and> liabilities_createdAt (liabilities_tbl (updateLiability i liabilityPatch u d) ! k) = liabilities_createdAt (liabilities_tbl d ! k))
      \<and> (k < length (liabilities_tbl d)
         \<and> \<not> (liabilities_id (liabilities_tbl d ! k) = i \<and> liabilities_userId (liabilities_tbl d ! k) = u)
        \<longrightarrow> liabilities_tbl (updateLiability i liabilityPatch u d) ! k = liabilities_tbl d ! k)
      \<and> length (liabilities_tbl (updateLiability i liabilityPatch u d)) = length (liabilities_tbl d))"
  by (auto simp: updateLiability_def Let_def update_where_nth length_update_where set_column_def)

text \<open>
  C10. The partial updates of incomes, expenses, assets and liabilities do not preserve
  \<open>notes\<close>: when the patch omits \<open>notes\<close>, the row with the given id and user id has
  its \<open>notes\<close> overwritten with NULL, while every other column that the patch omits,
  and the id and the creation time, keep their values. Rows that do not match the id
  and the user id are unchanged, and no row is added or removed. The updates always
  return; that of expenses throws only for a patch with an invalid date.
\<close>

theorem update_overwrites_notes:
  "((incomePatch_notes incomePatch = None \<and> k < length (incomes_tbl d)
         \<and> incomes_id (incomes_tbl d ! k) = i \<and> incomes_userId (incomes_tbl d ! k) = u
        \<longrightarrow> incomes_notes (incomes_tbl (updateIncome i incomePatch u d) ! k) = Null
          \<and> (incomePatch_userId incomePatch = None \<longrightarrow> incomes_userId (incomes_tbl (updateIncome i incomePatch u d) ! k) = incomes_userId (incomes_tbl d ! k))
          \<and> (incomePatch_source incomePatch = None \<longrightarrow> incomes_source (incomes_tbl (updateIncome i incomePatch u d) ! k) = incomes_source (incomes_tbl d ! k))
          \<and> (incomePatch_category incomePatch = None \<longrightarrow> incomes_category (incomes_tbl (updateIncome i incomePatch u d) ! k) = incomes_category (incomes_tbl d ! k))
          \<and> (incomePatch_amount incomePatch = None \<longrightarrow> incomes_amount (incomes_tbl (updateIncome i incomePatch u d) ! k) = incomes_amount (incomes_tbl d ! k))
          \<and> (incomePatch_type incomePatch = None \<longrightarrow> incomes_type (incomes_tbl (updateIncome i incomePatch u d) ! k) = incomes_type (incomes_tbl d ! k))
          \<and> (incomePatch_frequency incomePatch = None \<longrightarrow> incomes_frequency (incomes_tbl (updateIncome i incomePatch u d) ! k) = incomes_frequency (incomes_tbl d ! k))
          \<and> incomes_id (incomes_tbl (updateIncome i incomePatch u d) ! k) = incomes_id (incomes_tbl d ! k)
          \<and> incomes_createdAt (incomes_tbl (updateIncome i incomePatch u d) ! k) = incomes_createdAt (incomes_tbl d ! k))
      \<and> (k < length (incomes_tbl d)
         \<and> \<not> (incomes_id (incomes_tbl d ! k) = i \<and> incomes_userId (incomes_tbl d ! k) = u)
        \<longrightarrow> incomes_tbl (updateIncome i incomePatch u d) ! k = incomes_tbl d ! k)
      \<and> length (incomes_tbl (updateIncome i incomePatch u d)) = length (incomes_tbl d))
   \<and> ((updateExpense i expensePatch u d = Inr d' \<and> expensePatch_notes expensePatch = None \<and> k < length (expenses_tbl d)
         \<and> expenses_id (expenses_tbl d ! k) = i \<and> expenses_userId (expenses_tbl d ! k) = u
        \<longrightarrow> expenses_notes (expenses_tbl d' ! k) = Null
          \<and> (expensePatch_userId expensePatch = None \<longrightarrow> expenses_userId (expenses_tbl d' ! k) = expenses_userId (expenses_tbl d ! k))
          \<and> (expensePatch_category expensePatch = None \<longrightarrow> expenses_category (expenses_tbl d' ! k) = expenses_category (expenses_tbl d ! k))
          \<and> (expensePatch_amount expensePatch = None \<longrightarrow> expenses_amount (expenses_tbl d' ! k) = expenses_amount (expenses_tbl d ! k))
          \<and> (expensePatch_description expensePatch = None \<longrightarrow> expenses_description (expenses_tbl d' ! k) = expenses_description (expenses_tbl d ! k))
          \<and> (expensePatch_date expensePatch = None \<longrightarrow> expenses_date (expenses_tbl d' ! k) = expenses_date (expenses_tbl d ! k))
          \<and> expenses_id (expenses_tbl d' ! k) = expenses_id (expenses_tbl d ! k)
          \<and> expenses_createdAt (expenses_tbl d' ! k) = expenses_createdAt (expenses_tbl d ! k))
      \<and> (updateExpense i expensePatch u d = Inr d' \<and> k < length (expenses_tbl d)
         \<and> \<not> (expenses_id (expenses_tbl d ! k) = i \<and> expenses_userId (expenses_tbl d ! k) = u)
        \<longrightarrow> expenses_tbl d' ! k = expenses_tbl d ! k)
      \<and> (updateExpense i expensePatch u d = Inr d' \<longrightarrow> length (expenses_tbl d') = length (expenses_tbl d))
      \<and> (expensePatch_date expensePatch \<noteq> Some InvalidDate \<longrightarrow> (\<exists>db'. updateExpense i expensePatch u d = Inr db')))
   \<and> ((assetPatch_notes assetPatch = None \<and> k < length (assets_tbl d)
         \<and> assets_id (assets_tbl d ! k) = i \<and> assets_userId (assets_tbl d ! k) = u
        \<longrightarrow> assets_notes (assets_tbl (updateAsset i assetPatch u d) ! k) = Null
          \<and> (assetPatch_userId assetPatch = None \<longrightarrow> assets_userId (assets_tbl (updateAsset i assetPatch u d) ! k) = assets_userId (assets_tbl d ! k))
          \<and> (assetPatch_name assetPatch = None \<longrightarrow> assets_name (assets_tbl (updateAsset i assetPatch u d) ! k) = assets_name (assets_tbl d ! k))
          \<and> (assetPatch_category assetPatch = None \<longrightarrow> assets_category (assets_tbl (updateAsset i assetPatch u d) ! k) = assets_category (assets_tbl d ! k))
          \<and> (assetPatch_value assetPatch = None \<longrightarrow> assets_value (assets_tbl (updateAsset i assetPatch u d) ! k) = assets_value (assets_tbl d ! k))
          \<and> (assetPatch_incomeGenerated assetPatch = None \<longrightarrow> assets_incomeGenerated (assets_tbl (updateAsset i assetPatch u d) ! k) = assets_incomeGenerated (assets_tbl d ! k))
          \<and> assets_id (assets_tbl (updateAsset i assetPatch u d) ! k) = assets_id (assets_tbl d ! k)
          \<and> assets_createdAt (assets_tbl (updateAsset i assetPatch u d) ! k) = assets_createdAt (assets_tbl d ! k))
      \<and> (k < length (assets_tbl d)
         \<and> \<not> (assets_id (assets_tbl d ! k) = i \<and> assets_userId (assets_tbl d ! k) = u)
        \<longrightarrow> assets_tbl (updateAsset i assetPatch u d) ! k = assets_tbl d ! k)
      \<and> length (assets_tbl (updateAsset i assetPatch u d)) = length (assets_tbl d))
   \<and> ((liabilityPatch_notes liabilityPatch = None \<and> k < length (liabilities_tbl d)
         \<and> liabilities_id (liabilities_tbl d ! k) = i \<and> liabilities_userId (liabilities_tbl d ! k) = u
        \<longrightarrow> liabilities_notes (liabilities_tbl (updateLiability i liabilityPatch u d) ! k) = Null
          \<and> (liabilityPatch_userId liabilityPatch = None \<longrightarrow> liabilities_userId (liabilities_tbl (updateLiability i liabilityPatch u d) ! k) = liabilities_userId (liabilities_tbl d ! k))
          \<and> (liabilityPatch_description liabilityPatch = None \<longrightarrow> liabilities_description (liabilities_tbl (updateLiability i liabilityPatch u d) ! k) = liabilities_description (liabilities_tbl d ! k))
          \<and> (liabilityPatch_type liabilityPatch = None \<longrightarrow> liabilities_type (liabilities_tbl (updateLiability i liabilityPatch u d) ! k) = liabilities_type (liabilities_tbl d ! k))
          \<and> (liabilityPatch_amount liabilityPatch = None \<longrightarrow> liabilities_amount (liabilities_tbl (updateLiability i liabilityPatch u d) ! k) = liabilities_amount (liabilities_tbl d ! k))
          \<and> (liabilityPatch_interestRate liabilityPatch = None \<longrightarrow> liabilities_interestRate (liabilities_tbl (updateLiability i liabilityPatch u d) ! k) = liabilities_interestRate (liabilities_tbl d ! k))
          \<and> liabilities_id (liabilities_tbl (updateLiability i liabilityPatch u d) ! k) = liabilities_id (liabilities_tbl d ! k)
          \<and> liabilities_createdAt (liabilities_tbl (updateLiability i liabilityPatch u d) ! k) = liabilities_createdAt (liabilities_tbl d ! k))
      \<and> (k < length (liabilities_tbl d)
         \<and> \<not> (liabilities_id (liabilities_tbl d ! k) = i \<and> liabilities_userId (liabilities_tbl d ! k) = u)
        \<longrightarrow> liabilities_tbl (updateLiability i liabilityPatch u d) ! k = liabilities_tbl d ! k)
      \<and> length (liabilities_tbl (updateLiability i liabilityPatch u d)) = length (liabilities_tbl d))"
  by (intro conjI updateIncome_frame [THEN conjunct1] updateIncome_frame [THEN conjunct2, THEN conjunct1] updateIncome_frame [THEN conjunct2, THEN conjunct2] updateExpense_frame [THEN conjunct1] updateExpense_frame [THEN conjunct2, THEN conjunct1] updateExpense_frame [THEN conjunct2, THEN conjunct2, THEN conjunct1] updateExpense_frame [THEN conjunct2, THEN conjunct2, THEN conjunct2] updateAsset_frame [THEN conjunct1] updateAsset_frame [THEN conjunct2, THEN conjunct1] updateAsset_frame [THEN conjunct2, THEN conjunct2] updateLiability_frame [THEN conjunct1] updateLiability_frame [THEN conjunct2, THEN conjunct1] updateLiability_frame [THEN conjunct2, THEN conjunct2])

theorem update_overwrites_notes_witness:
  "incomes_notes (incomes_tbl (empty_db\<lparr>incomes_tbl := [sample_incomes_row\<lparr>incomes_notes := Value ''kept''\<rparr>]\<rparr>) ! 0) = Value ''kept''
   \<and> incomes_notes (incomes_tbl (updateIncome ''i1'' sample_incomePatch 1 (empty_db\<lparr>incomes_tbl := [sample_incomes_row\<lparr>incomes_notes := Value ''kept''\<rparr>]\<rparr>)) ! 0) = Null
   \<and> incomes_source (incomes_tbl (updateIncome ''i1'' sample_incomePatch 1 (empty_db\<lparr>incomes_tbl := [sample_incomes_row\<lparr>incomes_notes := Value ''kept''\<rparr>]\<rparr>)) ! 0) = ''Salary''
   \<and> updateExpense ''e1'' sample_expensePatch 1 (empty_db\<lparr>expenses_tbl := [sample_expenses_row\<lparr>expenses_notes := Value ''kept''\<rparr>]\<rparr>) = Inr (empty_db\<lparr>expenses_tbl := [sample_expenses_row\<lparr>expenses_amount := DecimalText (Fin 250), expenses_notes := Null\<rparr>]\<rparr>)
   \<and> expenses_notes (expenses_tbl (empty_db\<lparr>expenses_tbl := [sample_expenses_row\<lparr>expenses_notes := Value ''kept''\<rparr>]\<rparr>) ! 0) = Value ''kept''
   \<and> expenses_notes (expenses_tbl (empty_db\<lparr>expenses_tbl := [sample_expenses_row\<lparr>expenses_amount := DecimalText (Fin 250), expenses_notes := Null\<rparr>]\<rparr>) ! 0) = Null
   \<and> expenses_description (expenses_tbl (empty_db\<lparr>expenses_tbl := [sample_expenses_row\<lparr>expenses_amount := DecimalText (Fin 250), expenses_notes := Null\<rparr>]\<rparr>) ! 0) = ''Groceries''
   \<and> assets_notes (assets_tbl (empty_db\<lparr>assets_tbl := [sample_assets_row\<lparr>assets_notes := Value ''kept''\<rparr>]\<rparr>) ! 0) = Value ''kept''
   \<and> assets_notes (assets_tbl (updateAsset ''a1'' sample_assetPatch 1 (empty_db\<lparr>assets_tbl := [sample_assets_row\<lparr>assets_notes := Value ''kept''\<rparr>]\<rparr>)) ! 0) = Null
   \<and> assets_name (assets_tbl (updateAsset ''a1'' sample_assetPatch 1 (empty_db\<lparr>assets_tbl := [sample_assets_row\<lparr>assets_notes := Value ''kept''\<rparr>]\<rparr>)) ! 0) = ''Flat''
   \<and> liabilities_notes (liabilities_tbl (empty_db\<lparr>liabilities_tbl := [sample_liabilities_row\<lparr>liabilities_notes := Value ''kept''\<rparr>]\<rparr>) ! 0) = Value ''kept''
   \<and> liabilities_notes (liabilities_tbl (updateLiability ''l1'' sample_liabilityPatch 1 (empty_db\<lparr>liabilities_tbl := [sample_liabilities_row\<lparr>liabilities_notes := Value ''kept''\<rparr>]\<rparr>)) ! 0) = Null
   \<and> liabilities_description (liabilities_tbl (updateLiability ''l1'' sample_liabilityPatch 1 (empty_db\<lparr>liabilities_tbl := [sample_liabilities_row\<lparr>liabilities_notes := Value ''kept''\<rparr>]\<rparr>)) ! 0) = ''Car loan''"
proof -
  have h_income: "incomePatch_notes sample_incomePatch = None \<and> (0::nat) < length (incomes_tbl (empty_db\<lparr>incomes_tbl := [sample_incomes_row\<lparr>incomes_notes := Value ''kept''\<rparr>]\<rparr>))
       \<and> incomes_id (incomes_tbl (empty_db\<lparr>incomes_tbl := [sample_incomes_row\<lparr>incomes_notes := Value ''kept''\<rparr>]\<rparr>) ! 0) = ''i1''
       \<and> incomes_userId (incomes_tbl (empty_db\<lparr>incomes_tbl := [sample_incomes_row\<lparr>incomes_notes := Value ''kept''\<rparr>]\<rparr>) ! 0) = 1"
    by (simp add: sample_incomePatch_def sample_incomes_row_def empty_db_def)
  have b_income: "incomes_notes (incomes_tbl (empty_db\<lparr>incomes_tbl := [sample_incomes_row\<lparr>incomes_notes := Value ''kept''\<rparr>]\<rparr>) ! 0) = Value ''kept''"
    by (simp add: empty_db_def)
  have n_income: "incomes_notes (incomes_tbl (updateIncome ''i1'' sample_incomePatch 1 (empty_db\<lparr>incomes_tbl := [sample_incomes_row\<lparr>incomes_notes := Value ''kept''\<rparr>]\<rparr>)) ! 0) = Null"
    by (rule update_overwrites_notes
            [where i = "''i1''" and incomePatch = sample_incomePatch and u = 1 and k = 0
               and d = "(empty_db\<lparr>incomes_tbl := [sample_incomes_row\<lparr>incomes_notes := Value ''kept''\<rparr>]\<rparr>)",
             THEN conjunct1, THEN conjunct1, THEN mp, OF h_income, THEN conjunct1])
  have k_income: "incomes_source (incomes_tbl (updateIncome ''i1'' sample_incomePatch 1 (empty_db\<lparr>incomes_tbl := [sample_incomes_row\<lparr>incomes_notes := Value ''kept''\<rparr>]\<rparr>)) ! 0) = ''Salary''"
    by (simp add: updateIncome_def update_where_def set_column_def sample_incomePatch_def
        sample_incomes_row_def empty_db_def Let_def)
  have i_expense: "updateExpense ''e1'' sample_expensePatch 1 (empty_db\<lparr>expenses_tbl := [sample_expenses_row\<lparr>expenses_notes := Value ''kept''\<rparr>]\<rparr>) = Inr (empty_db\<lparr>expenses_tbl := [sample_expenses_row\<lparr>expenses_amount := DecimalText (Fin 250), expenses_notes := Null\<rparr>]\<rparr>)"
    by (simp add: updateExpense_def update_where_def set_column_def sample_expensePatch_def
        sample_expenses_row_def empty_db_def toString_num_def Let_def)
  have h_expense: "updateExpense ''e1'' sample_expensePatch 1 (empty_db\<lparr>expenses_tbl := [sample_expenses_row\<lparr>expenses_notes := Value ''kept''\<rparr>]\<rparr>) = Inr (empty_db\<lparr>expenses_tbl := [sample_expenses_row\<lparr>expenses_amount := DecimalText (Fin 250), expenses_notes := Null\<rparr>]\<rparr>)
       \<and> expensePatch_notes sample_expensePatch = None \<and> (0::nat) < length (expenses_tbl (empty_db\<lparr>expenses_tbl := [sample_expenses_row\<lparr>expenses_notes := Value ''kept''\<rparr>]\<rparr>))
       \<and> expenses_id (expenses_tbl (empty_db\<lparr>expenses_tbl := [sample_expenses_row\<lparr>expenses_notes := Value ''kept''\<rparr>]\<rparr>) ! 0) = ''e1''
       \<and> expenses_userId (expenses_tbl (empty_db\<lparr>expenses_tbl := [sample_expenses_row\<lparr>expenses_notes := Value ''kept''\<rparr>]\<rparr>) ! 0) = 1"
    using i_expense by (simp add: sample_expensePatch_def sample_expenses_row_def empty_db_def)
  have b_expense: "expenses_notes (expenses_tbl (empty_db\<lparr>expenses_tbl := [sample_expenses_row\<lparr>expenses_notes := Value ''kept''\<rparr>]\<rparr>) ! 0) = Value ''kept''"
    by (simp add: empty_db_def)
  have n_expense: "expenses_notes (expenses_tbl (empty_db\<lparr>expenses_tbl := [sample_expenses_row\<lparr>expenses_amount := DecimalText (Fin 250), expenses_notes := Null\<rparr>]\<rparr>) ! 0) = Null"
    by (rule update_overwrites_notes
            [where i = "''e1''" and expensePatch = sample_expensePatch and u = 1 and k = 0
               and d = "(empty_db\<lparr>expenses_tbl := [sample_expenses_row\<lparr>expenses_notes := Value ''kept''\<rparr>]\<rparr>)"
               and d' = "(empty_db\<lparr>expenses_tbl := [sample_expenses_row\<lparr>expenses_amount := DecimalText (Fin 250), expenses_notes := Null\<rparr>]\<rparr>)",
             THEN conjunct2, THEN conjunct1, THEN conjunct1, THEN mp, OF h_expense, THEN conjunct1])
  have k_expense: "expenses_description (expenses_tbl (empty_db\<lparr>expenses_tbl := [sample_expenses_row\<lparr>expenses_amount := DecimalText (Fin 250), expenses_notes := Null\<rparr>]\<rparr>) ! 0) = ''Groceries''"
    by (simp add: updateExpense_def update_where_def set_column_def sample_expensePatch_def
        sample_expenses_row_def empty_db_def Let_def)
  have h_asset: "assetPatch_notes sample_assetPatch = None \<and> (0::nat) < length (assets_tbl (empty_db\<lparr>assets_tbl := [sample_assets_row\<lparr>assets_notes := Value ''kept''\<rparr>]\<rparr>))
       \<and> assets_id (assets_tbl (empty_db\<lparr>assets_tbl := [sample_assets_row\<lparr>assets_notes := Value ''kept''\<rparr>]\<rparr>) ! 0) = ''a1''
       \<and> assets_userId (assets_tbl (empty_db\<lparr>assets_tbl := [sample_assets_row\<lparr>assets_notes := Value ''kept''\<rparr>]\<rparr>) ! 0) = 1"
    by (simp add: sample_assetPatch_def sample_assets_row_def empty_db_def)
  have b_asset: "assets_notes (assets_tbl (empty_db\<lparr>assets_tbl := [sample_assets_row\<lparr>assets_notes := Value ''kept''\<rparr>]\<rparr>) ! 0) = Value ''kept''"
    by (simp add: empty_db_def)
  have n_asset: "assets_notes (assets_tbl (updateAsset ''a1'' sample_assetPatch 1 (empty_db\<lparr>assets_tbl := [sample_assets_row\<lparr>assets_notes := Value ''kept''\<rparr>]\<rparr>)) ! 0) = Null"
    by (rule update_overwrites_notes
            [where i = "''a1''" and assetPatch = sample_assetPatch and u = 1 and k = 0
               and d = "(empty_db\<lparr>assets_tbl := [sample_assets_row\<lparr>assets_notes := Value ''kept''\<rparr>]\<rparr>)",
             THEN conjunct2, THEN conjunct2, THEN conjunct1, THEN conjunct1, THEN mp, OF h_asset, THEN conjunct1])
  have k_asset: "assets_name (assets_tbl (updateAsset ''a1'' sample_assetPatch 1 (empty_db\<lparr>assets_tbl := [sample_assets_row\<lparr>assets_notes := Value ''kept''\<rparr>]\<rparr>)) ! 0) = ''Flat''"
    by (simp add: updateAsset_def update_where_def set_column_def sample_assetPatch_def
        sample_assets_row_def empty_db_def Let_def)
  have h_liability: "liabilityPatch_notes sample_liabilityPatch = None \<and> (0::nat) < length (liabilities_tbl (empty_db\<lparr>liabilities_tbl := [sample_liabilities_row\<lparr>liabilities_notes := Value ''kept''\<rparr>]\<rparr>))
       \<and> liabilities_id (liabilities_tbl (empty_db\<lparr>liabilities_tbl := [sample_liabilities_row\<lparr>liabilities_notes := Value ''kept''\<rparr>]\<rparr>) ! 0) = ''l1''
       \<and> liabilities_userId (liabilities_tbl (empty_db\<lparr>liabilities_tbl := [sample_liabilities_row\<lparr>liabilities_notes := Value ''kept''\<rparr>]\<rparr>) ! 0) = 1"
    by (simp add: sample_liabilityPatch_def sample_liabilities_row_def empty_db_def)
  have b_liability: "liabilities_notes (liabilities_tbl (empty_db\<lparr>liabilities_tbl := [sample_liabilities_row\<lparr>liabilities_notes := Value ''kept''\<rparr>]\<rparr>) ! 0) = Value ''kept''"
    by (simp add: empty_db_def)
  have n_liability: "liabilities_notes (liabilities_tbl (updateLiability ''l1'' sample_liabilityPatch 1 (empty_db\<lparr>liabilities_tbl := [sample_liabilities_row\<lparr>liabilities_notes := Value ''kept''\<rparr>]\<rparr>)) ! 0) = Null"
    by (rule update_overwrites_notes
            [where i = "''l1''" and liabilityPatch = sample_liabilityPatch and u = 1 and k = 0
               and d = "(empty_db\<lparr>liabilities_tbl := [sample_liabilities_row\<lparr>liabilities_notes := Value ''kept''\<rparr>]\<rparr>)",
             THEN conjunct2, THEN conjunct2, THEN conjunct2, THEN conjunct1, THEN mp, OF h_liability, THEN conjunct1])
  have k_liability: "liabilities_description (liabilities_tbl (updateLiability ''l1'' sample_liabilityPatch 1 (empty_db\<lparr>liabilities_tbl := [sample_liabilities_row\<lparr>liabilities_notes := Value ''kept''\<rparr>]\<rparr>)) ! 0) = ''Car loan''"
    by (simp add: updateLiability_def update_where_def set_column_def sample_liabilityPatch_def
        sample_liabilities_row_def empty_db_def Let_def)
  show ?thesis
    by (intro conjI b_income n_income k_income i_expense b_expense n_expense k_expense b_asset n_asset k_asset b_liability n_liability k_liability)
qed

section \<open>Properties of the routes\<close>

subsection \<open>Login failures\<close>

lemma login_unknown_user:
  assumes "\<forall>r \<in> set (users_tbl d). users_username r \<noteq> username"
  shows "login h now username password d = Inl (Error ''User not found'')"
proof -
  have "select_where (\<lambda>r. users_username r = username) (users_tbl d) = []"
    using assms by (auto simp: select_where_def filter_empty_conv)
  then show ?thesis by (simp add: login_def)
qed

lemma login_wrong_password:
  assumes "select_where (\<lambda>r. users_username r = username) (users_tbl d) = u # rest"
    and "users_password u = Value hash" and "\<not> bcrypt_compare h password hash"
  shows "login h now username password d = Inl (Error ''Invalid password'')"
  using assms by (simp add: login_def comparePasswords_def)

text \<open>
  C2, as amended. A login that fails, because the user name is unknown or because the
  password does not verify against the stored hash, is answered with status 401 and an
  error message in both cases, and the database is unchanged; the message is
  "User not found" for an unknown user name and "Invalid password" for a known user
  name with a wrong password, so the two responses differ.
\<close>

theorem login_failure_responses:
  "(truthy username \<and> truthy password
      \<and> (\<forall>r \<in> set (users_tbl d). users_username r \<noteq> the username)
    \<longrightarrow> post_auth_login h now username password d =
          (\<lparr>status = 401, body = ErrorBody ''User not found''\<rparr>, d))
   \<and> (truthy username \<and> truthy password
      \<and> select_where (\<lambda>r. users_username r = the username) (users_tbl d) = u # rest
      \<and> users_password u = Value hash \<and> \<not> bcrypt_compare h (the password) hash
    \<longrightarrow> post_auth_login h now username password d =
          (\<lparr>status = 401, body = ErrorBody ''Invalid password''\<rparr>, d))"
proof (intro conjI impI)
  assume a: "truthy username \<and> truthy password
      \<and> (\<forall>r \<in> set (users_tbl d). users_username r \<noteq> the username)"
  then have "login h now (the username) (the password) d = Inl (Error ''User not found'')"
    by (simp add: login_unknown_user)
  with a show "post_auth_login h now username password d =
          (\<lparr>status = 401, body = ErrorBody ''User not found''\<rparr>, d)"
    by (simp add: post_auth_login_def error_message_def)
next
  assume a: "truthy username \<and> truthy password
      \<and> select_where (\<lambda>r. users_username r = the username) (users_tbl d) = u # rest
      \<and> users_password u = Value hash \<and> \<not> bcrypt_compare h (the password) hash"
  then have "login h now (the username) (the password) d = Inl (Error ''Invalid password'')"
    using login_wrong_password [of "the username" d u rest hash h "the password" now] by blast
  with a show "post_auth_login h now username password d =
          (\<lparr>status = 401, body = ErrorBody ''Invalid password''\<rparr>, d)"
    by (simp add: post_auth_login_def error_message_def)
qed

lemma sample_login_unknown:
  "truthy (Some ''bob'') \<and> truthy (Some ''wrong'')
   \<and> (\<forall>r \<in> set (users_tbl sample_db). users_username r \<noteq> the (Some ''bob''))"
  by (simp add: truthy_def sample_db_def empty_db_def sample_users_row_def)

lemma sample_login_wrong:
  "truthy (Some ''alice'') \<and> truthy (Some ''wrong'')
   \<and> select_where (\<lambda>r. users_username r = the (Some ''alice'')) (users_tbl sample_db)
       = sample_users_row # []
   \<and> users_password sample_users_row = Value ''hash of pw123456''
   \<and> \<not> bcrypt_compare sample_host (the (Some ''wrong'')) ''hash of pw123456''"
  by (simp add: truthy_def sample_db_def empty_db_def sample_users_row_def select_where_def
      sample_host_def)

theorem login_failure_responses_witness:
  "post_auth_login sample_host 0 (Some ''bob'') (Some ''wrong'') sample_db =
     (\<lparr>status = 401, body = ErrorBody ''User not found''\<rparr>, sample_db)
   \<and> post_auth_login sample_host 0 (Some ''alice'') (Some ''wrong'') sample_db =
     (\<lparr>status = 401, body = ErrorBody ''Invalid password''\<rparr>, sample_db)"
proof -
  have 1: "post_auth_login sample_host 0 (Some ''bob'') (Some ''wrong'') sample_db =
     (\<lparr>status = 401, body = ErrorBody ''User not found''\<rparr>, sample_db)"
    by (rule login_failure_responses [THEN conjunct1, THEN mp, OF sample_login_unknown])
  have 2: "post_auth_login sample_host 0 (Some ''alice'') (Some ''wrong'') sample_db =
     (\<lparr>status = 401, body = ErrorBody ''Invalid password''\<rparr>, sample_db)"
    by (rule login_failure_responses [THEN conjunct2, THEN mp, OF sample_login_wrong])
  from 1 2 show ?thesis by (rule conjI)
qed

text \<open>
  With user "alice" in the database, a login as "bob" and a login as "alice" with a
  wrong password get different error bodies.
\<close>

theorem login_reveals_username:
  "body (fst (post_auth_login sample_host 0 (Some ''bob'') (Some ''wrong'') sample_db)) =
     ErrorBody ''User not found''
   \<and> body (fst (post_auth_login sample_host 0 (Some ''alice'') (Some ''wrong'') sample_db)) =
     ErrorBody ''Invalid password''
   \<and> body (fst (post_auth_login sample_host 0 (Some ''bob'') (Some ''wrong'') sample_db)) \<noteq>
     body (fst (post_auth_login sample_host 0 (Some ''alice'') (Some ''wrong'') sample_db))"
  by (simp add: post_auth_login_def login_def comparePasswords_def truthy_def select_where_def
      error_message_def sample_db_def empty_db_def sample_users_row_def sample_host_def)

subsection \<open>Deleting a goal\<close>


lemma db_goals_tbl_same: "d\<lparr>goals_tbl := goals_tbl d\<rparr> = d"
  by simp






subsection \<open>Validation before persistence\<close>

lemma post_incomes_validates:
  "((validate_income userId incomeBody = Inl errors
        \<longrightarrow> post_incomes id' now incomeBody userId d =
              (\<lparr>status = 400, body = IssuesBody errors\<rparr>, d))
      \<and> (snd (post_incomes id' now incomeBody userId d) \<noteq> d
        \<longrightarrow> (\<exists>validatedData income. validate_income userId incomeBody = Inr validatedData
              \<and> createIncome id' now validatedData d
                  = Inr (income, snd (post_incomes id' now incomeBody userId d)))))"
  by (auto simp: post_incomes_def split: sum.splits)

lemma post_expenses_validates:
  "((validate_expense h userId expenseBody = Inl errors
        \<longrightarrow> post_expenses h id' now expenseBody userId d =
              (\<lparr>status = 400, body = IssuesBody errors\<rparr>, d))
      \<and> (snd (post_expenses h id' now expenseBody userId d) \<noteq> d
        \<longrightarrow> (\<exists>validatedData expense. validate_expense h userId expenseBody = Inr validatedData
              \<and> createExpense id' now validatedData d
                  = Inr (expense, snd (post_expenses h id' now expenseBody userId d)))))"
  by (auto simp: post_expenses_def split: sum.splits)

lemma post_assets_validates:
  "((validate_asset userId assetBody = Inl errors
        \<longrightarrow> post_assets id' now assetBody userId d =
              (\<lparr>status = 400, body = IssuesBody errors\<rparr>, d))
      \<and> (snd (post_assets id' now assetBody userId d) \<noteq> d
        \<longrightarrow> (\<exists>validatedData asset. validate_asset userId assetBody = Inr validatedData
              \<and> createAsset id' now validatedData d
                  = Inr (asset, snd (post_assets id' now assetBody userId d)))))"
  by (auto simp: post_assets_def split: sum.splits)

lemma post_liabilities_validates:
  "((userId \<noteq> 0 \<and> validate_liability userId liabilityBody = Inl errors
        \<longrightarrow> post_liabilities id' now liabilityBody userId d =
              (\<lparr>status = 400, body = IssuesBody errors\<rparr>, d))
      \<and> (snd (post_liabilities id' now liabilityBody userId d) \<noteq> d
        \<longrightarrow> (\<exists>validatedData liability. validate_liability userId liabilityBody = Inr validatedData
              \<and> createLiability id' now validatedData d
                  = Inr (liability, snd (post_liabilities id' now liabilityBody userId d)))))"
  by (auto simp: post_liabilities_def split: sum.splits)

lemma post_goals_validates:
  "((validate_goal h userId goalBody = Inl errors
        \<longrightarrow> post_goals h id' now goalBody userId d =
              (\<lparr>status = 400, body = IssuesBody errors\<rparr>, d))
      \<and> (snd (post_goals h id' now goalBody userId d) \<noteq> d
        \<longrightarrow> (\<exists>validatedData goal. validate_goal h userId goalBody = Inr validatedData
              \<and> createGoal id' now validatedData d
                  = Inr (goal, snd (post_goals h id' now goalBody userId d)))))"
  by (auto simp: post_goals_def split: sum.splits)

text \<open>
  C7. Every create (POST) route parses the body against the entity's schema before it
  calls the repository: the database changes only when the parse succeeded, and then by
  the repository's create on the validated data. When the parse fails the response is
  400 with the structured validation issues and the database is unchanged. (The
  liability route answers 401 before parsing when the request carries no user id.)
\<close>

theorem post_validates_before_write:
  "((validate_income userId incomeBody = Inl errors
        \<longrightarrow> post_incomes id' now incomeBody userId d =
              (\<lparr>status = 400, body = IssuesBody errors\<rparr>, d))
      \<and> (snd (post_incomes id' now incomeBody userId d) \<noteq> d
        \<longrightarrow> (\<exists>validatedData income. validate_income userId incomeBody = Inr validatedData
              \<and> createIncome id' now validatedData d
                  = Inr (income, snd (post_incomes id' now incomeBody userId d)))))
   \<and> ((validate_expense h userId expenseBody = Inl errors
        \<longrightarrow> post_expenses h id' now expenseBody userId d =
              (\<lparr>status = 400, body = IssuesBody errors\<rparr>, d))
      \<and> (snd (post_expenses h id' now expenseBody userId d) \<noteq> d
        \<longrightarrow> (\<exists>validatedData expense. validate_expense h userId expenseBody = Inr validatedData
              \<and> createExpense id' now validatedData d
                  = Inr (expense, snd (post_expenses h id' now expenseBody userId d)))))
   \<and> ((validate_asset userId assetBody = Inl errors
        \<longrightarrow> post_assets id' now assetBody userId d =
              (\<lparr>status = 400, body = IssuesBody errors\<rparr>, d))
      \<and> (snd (post_assets id' now assetBody userId d) \<noteq> d
        \<longrightarrow> (\<exists>validatedData asset. validate_asset userId assetBody = Inr validatedData
              \<and> createAsset id' now validatedData d
                  = Inr (asset, snd (post_assets id' now assetBody userId d)))))
   \<and> ((userId \<noteq> 0 \<and> validate_liability userId liabilityBody = Inl errors
        \<longrightarrow> post_liabilities id' now liabilityBody userId d =
              (\<lparr>status = 400, body = IssuesBody errors\<rparr>, d))
      \<and> (snd (post_liabilities id' now liabilityBody userId d) \<noteq> d
        \<longrightarrow> (\<exists>validatedData liability. validate_liability userId liabilityBody = Inr validatedData
              \<and> createLiability id' now validatedData d
                  = Inr (liability, snd (post_liabilities id' now liabilityBody userId d)))))
   \<and> ((validate_goal h userId goalBody = Inl errors
        \<longrightarrow> post_goals h id' now goalBody userId d =
              (\<lparr>status = 400, body = IssuesBody errors\<rparr>, d))
      \<and> (snd (post_goals h id' now goalBody userId d) \<noteq> d
        \<longrightarrow> (\<exists>validatedData goal. validate_goal h userId goalBody = Inr validatedData
              \<and> createGoal id' now validatedData d
                  = Inr (goal, snd (post_goals h id' now goalBody userId d)))))"
  by (intro conjI post_incomes_validates [THEN conjunct1] post_incomes_validates [THEN conjunct2] post_expenses_validates [THEN conjunct1] post_expenses_validates [THEN conjunct2] post_assets_validates [THEN conjunct1] post_assets_validates [THEN conjunct2] post_liabilities_validates [THEN conjunct1] post_liabilities_validates [THEN conjunct2] post_goals_validates [THEN conjunct1] post_goals_validates [THEN conjunct2])

theorem post_validates_before_write_witness:
  "post_incomes ''i9'' 1000 bad_incomeJson 1 sample_db =
     (\<lparr>status = 400, body = IssuesBody [ZodIssue ''amount'' ''invalid_type'']\<rparr>, sample_db)
   \<and> post_expenses sample_host ''e9'' 1000 bad_expenseJson 1 sample_db =
     (\<lparr>status = 400, body = IssuesBody [ZodIssue ''amount'' ''invalid_type'']\<rparr>, sample_db)
   \<and> post_assets ''a9'' 1000 bad_assetJson 1 sample_db =
     (\<lparr>status = 400, body = IssuesBody [ZodIssue ''value'' ''invalid_type'']\<rparr>, sample_db)
   \<and> post_liabilities ''l9'' 1000 bad_liabilityJson 1 sample_db =
     (\<lparr>status = 400, body = IssuesBody [ZodIssue ''amount'' ''invalid_type'']\<rparr>, sample_db)
   \<and> post_goals sample_host ''g9'' 1000 bad_goalJson 1 sample_db =
     (\<lparr>status = 400, body = IssuesBody [ZodIssue ''targetAmount'' ''invalid_type'']\<rparr>, sample_db)"
proof -
  have v_income: "validate_income 1 bad_incomeJson = Inl [ZodIssue ''amount'' ''invalid_type'']"
    by (simp add: validate_income_def parse_incomeSchema_def bad_incomeJson_def z_string_def
        z_string_min1_def z_number_def z_number_min0_def z_enum_def z_date_def new_Date_def
        Number_of_def js_ge_def sample_host_def)
  have p_income: "post_incomes ''i9'' 1000 bad_incomeJson 1 sample_db =
     (\<lparr>status = 400, body = IssuesBody [ZodIssue ''amount'' ''invalid_type'']\<rparr>, sample_db)"
    by (rule post_validates_before_write [THEN conjunct1, THEN conjunct1, THEN mp, OF v_income])
  have v_expense: "validate_expense sample_host 1 bad_expenseJson = Inl [ZodIssue ''amount'' ''invalid_type'']"
    by (simp add: validate_expense_def parse_expenseSchema_def bad_expenseJson_def z_string_def
        z_string_min1_def z_number_def z_number_min0_def z_enum_def z_date_def new_Date_def
        Number_of_def js_ge_def sample_host_def)
  have p_expense: "post_expenses sample_host ''e9'' 1000 bad_expenseJson 1 sample_db =
     (\<lparr>status = 400, body = IssuesBody [ZodIssue ''amount'' ''invalid_type'']\<rparr>, sample_db)"
    by (rule post_validates_before_write [THEN conjunct2, THEN conjunct1, THEN conjunct1, THEN mp, OF v_expense])
  have v_asset: "validate_asset 1 bad_assetJson = Inl [ZodIssue ''value'' ''invalid_type'']"
    by (simp add: validate_asset_def parse_assetSchema_def bad_assetJson_def z_string_def
        z_string_min1_def z_number_def z_number_min0_def z_enum_def z_date_def new_Date_def
        Number_of_def js_ge_def sample_host_def)
  have p_asset: "post_assets ''a9'' 1000 bad_assetJson 1 sample_db =
     (\<lparr>status = 400, body = IssuesBody [ZodIssue ''value'' ''invalid_type'']\<rparr>, sample_db)"
    by (rule post_validates_before_write [THEN conjunct2, THEN conjunct2, THEN conjunct1, THEN conjunct1, THEN mp, OF v_asset])
  have v_liability: "(1::int) \<noteq> 0 \<and> validate_liability 1 bad_liabilityJson = Inl [ZodIssue ''amount'' ''invalid_type'']"
    by (simp add: validate_liability_def parse_liabilitySchema_def bad_liabilityJson_def z_string_def
        z_string_min1_def z_number_def z_number_min0_def z_enum_def z_date_def new_Date_def
        Number_of_def js_ge_def sample_host_def)
  have p_liability: "post_liabilities ''l9'' 1000 bad_liabilityJson 1 sample_db =
     (\<lparr>status = 400, body = IssuesBody [ZodIssue ''amount'' ''invalid_type'']\<rparr>, sample_db)"
    by (rule post_validates_before_write [THEN conjunct2, THEN conjunct2, THEN conjunct2, THEN conjunct1, THEN conjunct1, THEN mp, OF v_liability])
  have v_goal: "validate_goal sample_host 1 bad_goalJson = Inl [ZodIssue ''targetAmount'' ''invalid_type'']"
    by (simp add: validate_goal_def parse_goalSchema_def bad_goalJson_def z_string_def
        z_string_min1_def z_number_def z_number_min0_def z_enum_def z_date_def new_Date_def
        Number_of_def js_ge_def sample_host_def)
  have p_goal: "post_goals sample_host ''g9'' 1000 bad_goalJson 1 sample_db =
     (\<lparr>status = 400, body = IssuesBody [ZodIssue ''targetAmount'' ''invalid_type'']\<rparr>, sample_db)"
    by (rule post_validates_before_write [THEN conjunct2, THEN conjunct2, THEN conjunct2, THEN conjunct2, THEN conjunct1, THEN mp, OF v_goal])
  show ?thesis
    by (intro conjI p_income p_expense p_asset p_liability p_goal)
qed

subsection \<open>Bulk sync\<close>





















































end
